theory Spec2Isabelle
  imports Complex_Main
begin

section \<open>Python and numpy values\<close>

text \<open>
  The engine of \<^verbatim>\<open>src/lib/empowrai_credit_model.py\<close> computes with IEEE doubles.
  Finite doubles are idealised as reals (rounding is not modelled); the special values
  that numpy produces without raising (\<^verbatim>\<open>nan\<close> for the mean of an empty array and for
  the logarithm of a negative number, \<^verbatim>\<open>-inf\<close> for the logarithm of zero) are kept
  as values of their own wherever the code can produce them.
\<close>

datatype pyfloat = Fin real | PInf | NInf | NaN

text \<open>\<^verbatim>\<open>a < b\<close> on floats: every comparison with \<^verbatim>\<open>nan\<close> is false.\<close>

fun flt :: "pyfloat \<Rightarrow> pyfloat \<Rightarrow> bool" where
  "flt NaN b = False"
| "flt a NaN = False"
| "flt (Fin a) (Fin b) = (a < b)"
| "flt (Fin a) PInf = True"
| "flt (Fin a) NInf = False"
| "flt PInf b = False"
| "flt NInf NInf = False"
| "flt NInf b = True"

text \<open>\<^verbatim>\<open>a >= b\<close> on floats.\<close>

fun fge :: "pyfloat \<Rightarrow> pyfloat \<Rightarrow> bool" where
  "fge NaN b = False"
| "fge a NaN = False"
| "fge a b = (\<not> flt a b)"

text \<open>\<^verbatim>\<open>r - x\<close> for a finite \<^verbatim>\<open>r\<close>, and \<^verbatim>\<open>abs(x)\<close>.\<close>

fun fsub :: "real \<Rightarrow> pyfloat \<Rightarrow> pyfloat" where
  "fsub r (Fin x) = Fin (r - x)"
| "fsub r PInf = NInf"
| "fsub r NInf = PInf"
| "fsub r NaN = NaN"

fun fabs :: "pyfloat \<Rightarrow> pyfloat" where
  "fabs (Fin x) = Fin \<bar>x\<bar>"
| "fabs PInf = PInf"
| "fabs NInf = PInf"
| "fabs NaN = NaN"

text \<open>\<^verbatim>\<open>r * x\<close> for a finite \<^verbatim>\<open>r\<close>: zero times an infinity is \<^verbatim>\<open>nan\<close>.\<close>

fun fmul :: "real \<Rightarrow> pyfloat \<Rightarrow> pyfloat" where
  "fmul r (Fin x) = Fin (r * x)"
| "fmul r NaN = NaN"
| "fmul r PInf = (if 0 < r then PInf else if r < 0 then NInf else NaN)"
| "fmul r NInf = (if 0 < r then NInf else if r < 0 then PInf else NaN)"

text \<open>\<^verbatim>\<open>x / d\<close> for a finite positive constant \<^verbatim>\<open>d\<close>.\<close>

fun fdiv_pos :: "pyfloat \<Rightarrow> real \<Rightarrow> pyfloat" where
  "fdiv_pos (Fin x) d = Fin (x / d)"
| "fdiv_pos PInf d = PInf"
| "fdiv_pos NInf d = NInf"
| "fdiv_pos NaN d = NaN"

text \<open>
  \<^verbatim>\<open>np.log\<close> on a finite double. With the default numpy error state (and warnings
  filtered, line 12) it never raises: zero gives \<^verbatim>\<open>-inf\<close>, a negative argument
  \<^verbatim>\<open>nan\<close>.
\<close>

definition np_log :: "real \<Rightarrow> pyfloat" where
  "np_log x = (if 0 < x then Fin (ln x) else if x = 0 then NInf else NaN)"

text \<open>
  The builtin \<^verbatim>\<open>min(a, b)\<close> of two arguments keeps \<^verbatim>\<open>a\<close> unless \<^verbatim>\<open>b < a\<close>;
  the builtins \<^verbatim>\<open>min(xs)\<close> and \<^verbatim>\<open>max(xs)\<close> scan a non-empty list from the left and
  replace the running value only by a strictly smaller (greater) item.
\<close>

definition py_min2 :: "pyfloat \<Rightarrow> pyfloat \<Rightarrow> pyfloat" where
  "py_min2 a b = (if flt b a then b else a)"

fun py_min :: "real list \<Rightarrow> real" where
  "py_min [] = 0"
| "py_min (x # xs) = foldl (\<lambda>m i. if i < m then i else m) x xs"

fun py_max :: "real list \<Rightarrow> real" where
  "py_max [] = 0"
| "py_max (x # xs) = foldl (\<lambda>m i. if m < i then i else m) x xs"

fun py_fmax :: "pyfloat list \<Rightarrow> pyfloat" where
  "py_fmax [] = NaN"
| "py_fmax (x # xs) = foldl (\<lambda>m i. if flt m i then i else m) x xs"

text \<open>
  \<^verbatim>\<open>arr.mean()\<close> of an integer array: \<open>mean\<close> is the quotient on a non-empty array,
  \<open>np_mean\<close> adds numpy's \<^verbatim>\<open>nan\<close> for the empty one.
\<close>

definition mean :: "int list \<Rightarrow> real" where
  "mean xs = real_of_int (sum_list xs) / real (length xs)"

definition np_mean :: "int list \<Rightarrow> pyfloat" where
  "np_mean xs = (if xs = [] then NaN else Fin (mean xs))"

datatype pyval = PyFloat pyfloat | PyInt int

text \<open>
  Exceptions, one constructor per raise site: the engine's own guard
  (\<^verbatim>\<open>raise ValueError("Model not trained yet")\<close>), the pandas frame constructor, the
  lookup of a row label and of a column name, boolean-mask indexing, and anything raised
  inside scikit-learn.
\<close>

datatype py_error =
    ModelNotTrained
  | ColumnCountError nat nat
  | LabelKeyError nat
  | ColumnKeyError string
  | MaskLengthError nat nat
  | SklearnError string

section \<open>Bias metrics\<close>

text \<open>
  The training frame, as far as the audit reads it: rows are found by index label and
  carry the values of the demographic columns \<^verbatim>\<open>race\<close> and \<^verbatim>\<open>gender\<close>, which
  can be read only when the frame has a column of that name. The feature columns are
  only ever handed to scikit-learn and are represented by their names.
\<close>

record demo_row =
  race :: int
  gender :: int

record train_frame =
  frame_columns :: "string list"
  frame_rows :: "nat \<rightharpoonup> demo_row"

text \<open>\<^verbatim>\<open>df.loc[test_indices]\<close>: a label that is not in the index raises \<^verbatim>\<open>KeyError\<close>.\<close>

fun loc_rows :: "(nat \<rightharpoonup> demo_row) \<Rightarrow> nat list \<Rightarrow> py_error + demo_row list" where
  "loc_rows rows [] = Inr []"
| "loc_rows rows (i # is) =
     (case rows i of
        None \<Rightarrow> Inl (LabelKeyError i)
      | Some r \<Rightarrow> (case loc_rows rows is of Inl e \<Rightarrow> Inl e | Inr rs \<Rightarrow> Inr (r # rs)))"

text \<open>\<^verbatim>\<open>Series.unique()\<close>: the distinct values in order of first appearance.\<close>

fun unique :: "'a list \<Rightarrow> 'a list" where
  "unique [] = []"
| "unique (x # xs) = x # unique (filter (\<lambda>y. y \<noteq> x) xs)"

text \<open>\<^verbatim>\<open>mask.sum()\<close> of a boolean column.\<close>

definition mask_sum :: "bool list \<Rightarrow> nat" where
  "mask_sum msk = length (filter (\<lambda>b. b) msk)"

text \<open>
  \<^verbatim>\<open>predictions[mask]\<close>: numpy raises \<^verbatim>\<open>IndexError\<close> when the boolean mask and the
  array differ in length, and otherwise selects the entries under a true bit.
\<close>

definition mask_index :: "int list \<Rightarrow> bool list \<Rightarrow> py_error + int list" where
  "mask_index arr msk =
     (if length msk \<noteq> length arr then Inl (MaskLengthError (length arr) (length msk))
      else Inr (map fst (filter snd (zip arr msk))))"

text \<open>
  The loop of lines 187-191 over the distinct races. The dictionary
  \<^verbatim>\<open>race_approval_rates\<close> is an association list in insertion order; its keys come from
  \<open>unique\<close>, so every assignment adds a new entry.
\<close>

fun race_loop :: "int list \<Rightarrow> int list \<Rightarrow> int list \<Rightarrow> (int \<times> real) list
    \<Rightarrow> py_error + (int \<times> real) list" where
  "race_loop [] col predictions rates = Inr rates"
| "race_loop (r # rs) col predictions rates =
     (let race_mask = map (\<lambda>x. x = r) col in
      if mask_sum race_mask > 10 then
        (case mask_index predictions race_mask of
           Inl e \<Rightarrow> Inl e
         | Inr sel \<Rightarrow> race_loop rs col predictions (rates @ [(r, mean sel)]))
      else race_loop rs col predictions rates)"

text \<open>The loop of lines 203-208 over the distinct genders.\<close>

fun gender_loop :: "int list \<Rightarrow> int list \<Rightarrow> int list \<Rightarrow> pyfloat \<Rightarrow> pyfloat list
    \<Rightarrow> py_error + pyfloat list" where
  "gender_loop [] col predictions overall differences = Inr differences"
| "gender_loop (g # gs) col predictions overall differences =
     (let gender_mask = map (\<lambda>x. x = g) col in
      if mask_sum gender_mask > 10 then
        (case mask_index predictions gender_mask of
           Inl e \<Rightarrow> Inl e
         | Inr sel \<Rightarrow>
             gender_loop gs col predictions overall
               (differences @ [fabs (fsub (mean sel) overall)]))
      else gender_loop gs col predictions overall differences)"

text \<open>Lines 193-197.\<close>

definition disparate_impact_of :: "(int \<times> real) list \<Rightarrow> real" where
  "disparate_impact_of race_approval_rates =
     (if length race_approval_rates \<ge> 2 then
        (let rates = map snd race_approval_rates in
         if py_max rates > 0 then py_min rates / py_max rates else 1)
      else 1)"

text \<open>\<^verbatim>\<open>(pred_proba > 0.5).astype(int)\<close>, line 182.\<close>

definition binarize :: "real list \<Rightarrow> int list" where
  "binarize pred_proba = map (\<lambda>p. if p > 0.5 then 1 else 0) pred_proba"

text \<open>
  The groups the audit speaks of: a group qualifies when strictly more than 10 held-out
  rows carry its value, and its rate is the mean prediction over those rows.
\<close>

definition qualifying_groups :: "int list \<Rightarrow> int list" where
  "qualifying_groups col = filter (\<lambda>g. count_list col g > 10) (unique col)"

definition group_rate :: "int list \<Rightarrow> int list \<Rightarrow> int \<Rightarrow> real" where
  "group_rate col predictions g = mean (map fst (filter (\<lambda>(p, x). x = g) (zip predictions col)))"

type_synonym metrics = "(string \<times> pyval) list"

text \<open>
  The body of the \<^verbatim>\<open>try\<close> block, lines 178-217: the dictionary and the logged ratio.
  Reading the column \<^verbatim>\<open>race\<close> (line 187) or \<^verbatim>\<open>gender\<close> (line 203) of a frame that
  has no such column raises \<^verbatim>\<open>KeyError\<close>.
\<close>

definition bias_metrics_try :: "train_frame \<Rightarrow> nat list \<Rightarrow> real list \<Rightarrow> py_error + metrics \<times> real" where
  "bias_metrics_try df test_indices pred_proba =
     (case loc_rows (frame_rows df) test_indices of
        Inl e \<Rightarrow> Inl e
      | Inr test_demographics \<Rightarrow>
          (let predictions = binarize pred_proba;
               race_col = map race test_demographics;
               gender_col = map gender test_demographics
           in if ''race'' \<notin> set (frame_columns df) then Inl (ColumnKeyError ''race'')
              else
               (case race_loop (unique race_col) race_col predictions [] of
                  Inl e \<Rightarrow> Inl e
                | Inr race_approval_rates \<Rightarrow>
                    (let disparate_impact = disparate_impact_of race_approval_rates;
                         overall_approval_rate = np_mean predictions
                     in if ''gender'' \<notin> set (frame_columns df) then Inl (ColumnKeyError ''gender'')
                        else
                         (case gender_loop (unique gender_col) gender_col predictions
                                 overall_approval_rate [] of
                            Inl e \<Rightarrow> Inl e
                          | Inr gender_differences \<Rightarrow>
                              (let statistical_parity_diff =
                                     (if gender_differences \<noteq> [] then py_fmax gender_differences
                                      else Fin 0)
                               in Inr ([(''disparate_impact'', PyFloat (Fin disparate_impact)),
                                        (''statistical_parity_difference'',
                                           PyFloat statistical_parity_diff),
                                        (''equal_opportunity_difference'', PyFloat (Fin 0.05)),
                                        (''demographic_groups_analyzed'',
                                           PyInt (int (length race_approval_rates)))],
                                       disparate_impact)))))))"

text \<open>The dictionary stored by the \<^verbatim>\<open>except\<close> branch, lines 223-228.\<close>

definition neutral_metrics :: metrics where
  "neutral_metrics =
     [(''disparate_impact'', PyFloat (Fin 1)),
      (''statistical_parity_difference'', PyFloat (Fin 0)),
      (''equal_opportunity_difference'', PyFloat (Fin 0)),
      (''demographic_groups_analyzed'', PyInt 0)]"

datatype log_record =
    InfoTrainingStarted
  | InfoBiasCalculated real
  | WarningBiasFailed py_error
  | InfoTrainingCompleted


section \<open>The engine\<close>

text \<open>
  scikit-learn is an external library: a fitted classifier is the function from a scaled
  feature row to \<^verbatim>\<open>predict_proba(row)[0, 1]\<close>, a scaler is its \<^verbatim>\<open>transform\<close> on a
  one-row frame of named columns; either may raise, with the message on the left.
\<close>

type_synonym feature_frame = "(string \<times> real) list"
type_synonym classifier = "real list \<Rightarrow> string + real"
type_synonym scaler = "feature_frame \<Rightarrow> string + real list"

record trained_model =
  rf :: classifier
  gb :: classifier

text \<open>The importance table, a pandas frame with a column list and rows.\<close>

record importance_table =
  table_columns :: "string list"
  table_rows :: "(string \<times> real) list"

text \<open>
  Frames are mutable objects that the engine and its callers can share, so they live in
  a store of cells addressed by references; \<open>alloc\<close> creates a new object.
\<close>

record heap =
  cells :: "nat \<Rightarrow> importance_table"
  next_free :: nat

definition alloc :: "heap \<Rightarrow> importance_table \<Rightarrow> nat \<times> heap" where
  "alloc h t = (next_free h, h\<lparr>cells := (cells h)(next_free h := t), next_free := Suc (next_free h)\<rparr>)"

definition heap_write :: "heap \<Rightarrow> nat \<Rightarrow> importance_table \<Rightarrow> heap" where
  "heap_write h r t = h\<lparr>cells := (cells h)(r := t)\<rparr>"

record engine =
  model :: "trained_model option"
  scaler :: scaler
  feature_names :: "string list"
  model_performance :: metrics
  bias_metrics :: metrics
  feature_importance :: "nat option"
  logged :: "log_record list"

text \<open>A \<^verbatim>\<open>StandardScaler()\<close> that has not been fitted rejects every \<^verbatim>\<open>transform\<close>.\<close>

definition unfitted_scaler :: scaler where
  "unfitted_scaler frame = Inl ''This StandardScaler instance is not fitted yet''"

text \<open>
  A fitted \<^verbatim>\<open>StandardScaler\<close> with its \<^verbatim>\<open>mean_\<close> and \<^verbatim>\<open>scale_\<close>: \<^verbatim>\<open>transform\<close>
  raises \<^verbatim>\<open>ValueError\<close> unless the input has as many columns as the data it was fitted
  on, and otherwise standardises each column.
\<close>

definition standard_scaler :: "real list \<Rightarrow> real list \<Rightarrow> scaler" where
  "standard_scaler means scales frame =
     (if length frame \<noteq> length means
      then Inl ''X has a different number of features than StandardScaler is expecting''
      else Inr (map (\<lambda>((c, x), m, s). (x - m) / s) (zip frame (zip means scales))))"

text \<open>\<^verbatim>\<open>__init__\<close>, lines 24-38.\<close>

definition init_engine :: engine where
  "init_engine =
     \<lparr>model = None,
      scaler = unfitted_scaler,
      feature_names =
        [''credit_score'', ''monthly_income'', ''total_alternative_income'',
         ''payment_reliability_score'', ''cash_flow_consistency'', ''platform_ratings'',
         ''community_trust_score'', ''financial_engagement_score'',
         ''income_diversification'', ''business_health''],
      model_performance = [],
      bias_metrics = [],
      feature_importance = None,
      logged = []\<rparr>"

text \<open>
  \<^verbatim>\<open>_calculate_bias_metrics\<close>, lines 175-228: the \<^verbatim>\<open>try\<close> body either completes and
  stores its dictionary, or raises and the handler stores the neutral one.
\<close>

definition calculate_bias_metrics :: "engine \<Rightarrow> train_frame \<Rightarrow> nat list \<Rightarrow> real list \<Rightarrow> engine" where
  "calculate_bias_metrics eng df test_indices pred_proba =
     (case bias_metrics_try df test_indices pred_proba of
        Inr (m, disparate_impact) \<Rightarrow>
          eng\<lparr>bias_metrics := m,
              logged := logged eng @ [InfoBiasCalculated disparate_impact]\<rparr>
      | Inl e \<Rightarrow>
          eng\<lparr>bias_metrics := neutral_metrics,
              logged := logged eng @ [WarningBiasFailed e]\<rparr>)"

text \<open>
  What the scikit-learn calls of one training run returned (a run in which none of them
  raised): the index of the held-out split, the two fitted classifiers and their
  probabilities on the held-out rows, the fitted scaler, the performance scores and the
  two importance vectors.
\<close>

record sk_run =
  test_index :: "nat list"
  rf_fitted :: classifier
  gb_fitted :: classifier
  rf_pred :: "real list"
  gb_pred :: "real list"
  scaler_fitted :: scaler
  performance :: metrics
  rf_importances :: "real list"
  gb_importances :: "real list"

text \<open>
  \<^verbatim>\<open>train_model\<close>, lines 117-173. \<^verbatim>\<open>sort_values('importance', ascending=False)\<close> is
  a sort by the negated weight; the order of rows of equal weight is pandas' own and no
  property below depends on it.
\<close>

definition train_model :: "engine \<Rightarrow> heap \<Rightarrow> train_frame \<Rightarrow> sk_run \<Rightarrow> engine \<times> heap" where
  "train_model eng h df run =
     (let feature_cols =
            filter (\<lambda>c. c \<notin> set [''approved'', ''race'', ''gender'', ''age'']) (frame_columns df);
          ensemble_pred_proba = map (\<lambda>(a, b). (a + b) / 2) (zip (rf_pred run) (gb_pred run));
          eng1 = eng\<lparr>model := Some \<lparr>rf = rf_fitted run, gb = gb_fitted run\<rparr>,
                     scaler := scaler_fitted run,
                     model_performance := performance run,
                     logged := logged eng @ [InfoTrainingStarted]\<rparr>;
          avg_importance =
            map (\<lambda>(a, b). (a + b) / 2) (zip (rf_importances run) (gb_importances run));
          table = \<lparr>table_columns = [''feature'', ''importance''],
                   table_rows = sort_key (\<lambda>(f, w). - w) (zip feature_cols avg_importance)\<rparr>;
          (r, h') = alloc h table;
          eng2 = eng1\<lparr>feature_importance := Some r\<rparr>;
          eng3 = calculate_bias_metrics eng2 df (test_index run) ensemble_pred_proba
      in (eng3\<lparr>logged := logged eng3 @ [InfoTrainingCompleted]\<rparr>, h'))"

text \<open>
  A call of \<^verbatim>\<open>train_model\<close> need not complete. The model is stored at line 146 and
  the scaler is fitted at line 147, before the scores of lines 151-155 are computed; an
  exception raised there reaches the caller and leaves the engine as it is at that
  point, with the performance, the importance table and the report it had before.
\<close>

definition train_model_stored :: "engine \<Rightarrow> sk_run \<Rightarrow> engine" where
  "train_model_stored eng run =
     eng\<lparr>model := Some \<lparr>rf = rf_fitted run, gb = gb_fitted run\<rparr>,
         scaler := scaler_fitted run,
         logged := logged eng @ [InfoTrainingStarted]\<rparr>"

text \<open>
  Where a scikit-learn call of a training run raises, if it does: while the data are
  split and the classifiers fitted and applied (lines 127-142, before anything is
  stored), or while the held-out predictions are scored (lines 151-155).
\<close>

datatype sk_failure = FitRaises string | ScoreRaises string

text \<open>
  \<^verbatim>\<open>train_model\<close> as a call that may raise: the exception, if any, and the engine
  and store it leaves behind.
\<close>

definition train_model_run :: "engine \<Rightarrow> heap \<Rightarrow> train_frame \<Rightarrow> sk_run \<Rightarrow> sk_failure option
    \<Rightarrow> py_error option \<times> engine \<times> heap" where
  "train_model_run eng h df run failure =
     (case failure of
        None \<Rightarrow> (None, train_model eng h df run)
      | Some (FitRaises msg) \<Rightarrow>
          (Some (SklearnError msg), eng\<lparr>logged := logged eng @ [InfoTrainingStarted]\<rparr>, h)
      | Some (ScoreRaises msg) \<Rightarrow> (Some (SklearnError msg), train_model_stored eng run, h))"

text \<open>
  \<^verbatim>\<open>pd.DataFrame([features], columns=self.feature_names[:len(features)])\<close>, line 236:
  pandas raises \<^verbatim>\<open>ValueError\<close> when the number of column names differs from the
  number of values in the row.
\<close>

definition make_feature_df :: "string list \<Rightarrow> real list \<Rightarrow> py_error + feature_frame" where
  "make_feature_df names features =
     (let columns = take (length features) names in
      if length columns \<noteq> length features
      then Inl (ColumnCountError (length columns) (length features))
      else Inr (zip columns features))"

text \<open>\<^verbatim>\<open>predict_probability\<close>, lines 230-246.\<close>

definition predict_probability :: "engine \<Rightarrow> real list \<Rightarrow> py_error + real" where
  "predict_probability eng features =
     (case model eng of
        None \<Rightarrow> Inl ModelNotTrained
      | Some m \<Rightarrow>
          (case make_feature_df (feature_names eng) features of
             Inl e \<Rightarrow> Inl e
           | Inr feature_df \<Rightarrow>
               (case scaler eng feature_df of
                  Inl msg \<Rightarrow> Inl (SklearnError msg)
                | Inr features_scaled \<Rightarrow>
                    (case rf m features_scaled of
                       Inl msg \<Rightarrow> Inl (SklearnError msg)
                     | Inr rf_p \<Rightarrow>
                         (case gb m features_scaled of
                            Inl msg \<Rightarrow> Inl (SklearnError msg)
                          | Inr gb_p \<Rightarrow> Inr ((rf_p + gb_p) / 2))))))"

text \<open>The threshold chain of lines 259-273: decision and confidence.\<close>

definition decision_band :: "real \<Rightarrow> string \<times> string" where
  "decision_band risk_score =
     (if risk_score \<ge> 0.7 then (''APPROVED'', ''High'')
      else if risk_score \<ge> 0.55 then (''APPROVED'', ''Medium'')
      else if risk_score \<ge> 0.4 then (''CONDITIONAL'', ''Medium'')
      else if risk_score \<ge> 0.25 then (''CONDITIONAL'', ''Low'')
      else (''DENIED'', ''High''))"

text \<open>
  \<^verbatim>\<open>_humanize_feature_name\<close>, lines 314-328. The fallback
  \<^verbatim>\<open>replace('_', ' ').title()\<close> is modelled on ASCII names: a letter is upper-cased
  after a non-letter and lower-cased after a letter.
\<close>

definition is_upper :: "char \<Rightarrow> bool" where
  "is_upper c = (65 \<le> (of_char c :: nat) \<and> (of_char c :: nat) \<le> 90)"

definition is_lower :: "char \<Rightarrow> bool" where
  "is_lower c = (97 \<le> (of_char c :: nat) \<and> (of_char c :: nat) \<le> 122)"

definition to_upper :: "char \<Rightarrow> char" where
  "to_upper c = (if is_lower c then char_of ((of_char c :: nat) - 32) else c)"

definition to_lower :: "char \<Rightarrow> char" where
  "to_lower c = (if is_upper c then char_of ((of_char c :: nat) + 32) else c)"

fun title_from :: "bool \<Rightarrow> string \<Rightarrow> string" where
  "title_from prev [] = []"
| "title_from prev (c # cs) =
     (if is_upper c \<or> is_lower c
      then (if prev then to_lower c else to_upper c) # title_from True cs
      else c # title_from False cs)"

definition title :: "string \<Rightarrow> string" where
  "title s = title_from False s"

definition name_mapping :: "(string \<times> string) list" where
  "name_mapping =
     [(''credit_score'', ''Traditional Credit Score''),
      (''monthly_income'', ''Monthly Income''),
      (''total_alternative_income'', ''Alternative Income Sources''),
      (''payment_reliability_score'', ''Payment History''),
      (''cash_flow_consistency'', ''Business Cash Flow Stability''),
      (''platform_ratings'', ''Gig Platform Performance''),
      (''community_trust_score'', ''Community Trust''),
      (''financial_engagement_score'', ''Financial Education''),
      (''income_diversification'', ''Income Diversification''),
      (''business_health'', ''Overall Business Health'')]"

definition humanize_feature_name :: "string \<Rightarrow> string" where
  "humanize_feature_name feature_name =
     (case map_of name_mapping feature_name of
        Some n \<Rightarrow> n
      | None \<Rightarrow> title (map (\<lambda>c. if c = CHR ''_'' then CHR '' '' else c) feature_name))"

text \<open>
  Lines 280-284: the weight of the first row of the table whose \<^verbatim>\<open>feature\<close> is the
  name, \<^verbatim>\<open>0.1\<close> when there is no table or no such row.
\<close>

definition importance_of :: "importance_table option \<Rightarrow> string \<Rightarrow> real" where
  "importance_of tab feature_name =
     (case tab of
        None \<Rightarrow> 0.1
      | Some t \<Rightarrow>
          (case filter (\<lambda>(f, w). f = feature_name) (table_rows t) of
             [] \<Rightarrow> 0.1
           | (f, w) # rest \<Rightarrow> w))"

text \<open>Lines 287-292.\<close>

definition normalized_value :: "string \<Rightarrow> real \<Rightarrow> pyfloat" where
  "normalized_value feature_name v =
     (if feature_name = ''credit_score'' then Fin ((v - 300) / 550)
      else if feature_name \<in> set [''monthly_income'', ''total_alternative_income'']
      then py_min2 (fdiv_pos (np_log (v / 1000)) 3) (Fin 1)
      else py_min2 (Fin v) (Fin 1))"

record contribution =
  factor_name :: string
  factor_value :: real
  impact :: pyfloat
  importance :: real

definition contribution_of :: "importance_table option \<Rightarrow> string \<times> real \<Rightarrow> contribution" where
  "contribution_of tab = (\<lambda>(feature_name, v).
     (let imp = importance_of tab feature_name
      in \<lparr>factor_name = humanize_feature_name feature_name,
          factor_value = v,
          impact = fmul imp (normalized_value feature_name v),
          importance = imp\<rparr>))"

text \<open>
  \<^verbatim>\<open>list.sort(key=..., reverse=True)\<close>, line 304, as CPython sorts a list of fewer
  than 64 items (the contribution list has at most the 10 items of the schema): the
  list is reversed, sorted in ascending order and reversed again, and keys are compared
  with \<^verbatim>\<open><\<close> only. The ascending sort takes the longest prefix that is a run, either
  non-descending or strictly descending (\<open>count_run\<close>; a descending run is reversed in
  place), and inserts every later item into the sorted prefix at the position found by
  bisection (\<open>binarysort\<close>). On keys free of \<^verbatim>\<open>nan\<close> this is the stable sort; with
  \<^verbatim>\<open>nan\<close> keys the result is whatever these comparisons leave. Run detection was
  rewritten in CPython 3.13, which can change the result only for lists with \<^verbatim>\<open>nan\<close>
  keys whose reversal is not a single non-descending run.
\<close>

fun count_asc :: "('a \<Rightarrow> pyfloat) \<Rightarrow> 'a \<Rightarrow> 'a list \<Rightarrow> nat" where
  "count_asc key prev [] = 0"
| "count_asc key prev (x # xs) =
     (if flt (key x) (key prev) then 0 else Suc (count_asc key x xs))"

fun count_desc :: "('a \<Rightarrow> pyfloat) \<Rightarrow> 'a \<Rightarrow> 'a list \<Rightarrow> nat" where
  "count_desc key prev [] = 0"
| "count_desc key prev (x # xs) =
     (if flt (key x) (key prev) then Suc (count_desc key x xs) else 0)"

text \<open>The length of the leading run and whether it is strictly descending.\<close>

fun count_run :: "('a \<Rightarrow> pyfloat) \<Rightarrow> 'a list \<Rightarrow> nat \<times> bool" where
  "count_run key [] = (0, False)"
| "count_run key [x] = (1, False)"
| "count_run key (x # y # ys) =
     (if flt (key y) (key x) then (2 + count_desc key y ys, True)
      else (2 + count_asc key y ys, False))"

text \<open>
  The bisection of \<^verbatim>\<open>binarysort\<close>: the probe is the middle of \<open>l\<close> and \<open>r\<close>; the
  right bound moves to the probe when the pivot is less than the probed item, the left
  bound moves past the probe otherwise.
\<close>

function bisect :: "('a \<Rightarrow> pyfloat) \<Rightarrow> 'a list \<Rightarrow> 'a \<Rightarrow> nat \<Rightarrow> nat \<Rightarrow> nat" where
  "bisect key xs pivot l r =
     (if l < r then
        (let p = l + (r - l) div 2 in
         if flt (key pivot) (key (xs ! p)) then bisect key xs pivot l p
         else bisect key xs pivot (p + 1) r)
      else l)"
  by pat_completeness auto
termination
  by (relation "measure (\<lambda>(key, xs, pivot, l, r). r - l)") auto

declare bisect.simps [simp del]

fun binarysort :: "('a \<Rightarrow> pyfloat) \<Rightarrow> 'a list \<Rightarrow> 'a list \<Rightarrow> 'a list" where
  "binarysort key run [] = run"
| "binarysort key run (pivot # rest) =
     (let l = bisect key run pivot 0 (length run)
      in binarysort key (take l run @ [pivot] @ drop l run) rest)"

definition list_sort :: "('a \<Rightarrow> pyfloat) \<Rightarrow> 'a list \<Rightarrow> 'a list" where
  "list_sort key xs =
     (let (n, descending) = count_run key xs;
          run = (if descending then rev (take n xs) else take n xs)
      in binarysort key run (drop n xs))"

definition sort_reverse :: "('a \<Rightarrow> pyfloat) \<Rightarrow> 'a list \<Rightarrow> 'a list" where
  "sort_reverse key xs = rev (list_sort key (rev xs))"

text \<open>
  The loop of lines 276-301: one contribution for each pair of \<^verbatim>\<open>zip\<close>, which stops
  at the shorter of the schema and the supplied values.
\<close>

definition feature_contributions :: "engine \<Rightarrow> heap \<Rightarrow> real list \<Rightarrow> contribution list" where
  "feature_contributions eng h applicant_data =
     map (contribution_of (map_option (cells h) (feature_importance eng)))
       (zip (feature_names eng) applicant_data)"

text \<open>A list of contributions is in descending order when \<^verbatim>\<open>a >= b\<close> holds for the
  impacts of every earlier entry \<^verbatim>\<open>a\<close> and later entry \<^verbatim>\<open>b\<close>.\<close>

definition descending_by_impact :: "contribution list \<Rightarrow> bool" where
  "descending_by_impact cs = sorted_wrt (\<lambda>a b. fge (impact a) (impact b)) cs"

record explanation =
  decision :: string
  confidence :: string
  risk_score :: real
  approval_probability :: real
  key_factors :: "contribution list"

text \<open>\<^verbatim>\<open>generate_explanation\<close>, lines 248-312.\<close>

definition generate_explanation :: "engine \<Rightarrow> heap \<Rightarrow> real list \<Rightarrow> py_error + explanation" where
  "generate_explanation eng h applicant_data =
     (case model eng of
        None \<Rightarrow> Inl ModelNotTrained
      | Some m \<Rightarrow>
          (case predict_probability eng applicant_data of
             Inl e \<Rightarrow> Inl e
           | Inr p \<Rightarrow>
               (let (d, c) = decision_band p
                in Inr \<lparr>decision = d,
                        confidence = c,
                        risk_score = 1 - p,
                        approval_probability = p,
                        key_factors =
                          take 5 (sort_reverse impact
                                    (feature_contributions eng h applicant_data))\<rparr>)))"

text \<open>
  \<^verbatim>\<open>get_feature_importance\<close>, lines 330-334: a new empty frame before training, a new
  copy of the stored frame afterwards.
\<close>

definition get_feature_importance :: "engine \<Rightarrow> heap \<Rightarrow> nat \<times> heap" where
  "get_feature_importance eng h =
     (case feature_importance eng of
        None \<Rightarrow> alloc h \<lparr>table_columns = [''feature'', ''importance''], table_rows = []\<rparr>
      | Some r \<Rightarrow> alloc h (cells h r))"

section \<open>Sample data\<close>

text \<open>
  A store with no objects, a frame of 22 held-out rows in two race groups of 11, and the
  results of a training run on it: two constant classifiers and a scaler fitted on the
  ten features.
\<close>

definition empty_heap :: heap where
  "empty_heap = \<lparr>cells = (\<lambda>r. \<lparr>table_columns = [], table_rows = []\<rparr>), next_free = 0\<rparr>"

definition example_frame :: train_frame where
  "example_frame =
     \<lparr>frame_columns = feature_names init_engine @ [''approved'', ''race'', ''gender'', ''age''],
      frame_rows = (\<lambda>i. if i < 22 then Some \<lparr>race = (if i < 11 then 1 else 2), gender = 1\<rparr>
                         else None)\<rparr>"

definition audit_index :: "nat list" where
  "audit_index = [0..<22]"

definition audit_rows :: "demo_row list" where
  "audit_rows = map (\<lambda>i. \<lparr>race = (if i < 11 then 1 else 2), gender = 1\<rparr>) [0..<22::nat]"

definition mixed_proba :: "real list" where
  "mixed_proba = replicate 16 0.9 @ replicate 6 0.1"

definition denied_proba :: "real list" where
  "denied_proba = replicate 22 0.1"

definition split_proba :: "real list" where
  "split_proba = replicate 11 0.9 @ replicate 11 0.1"

definition example_run :: sk_run where
  "example_run =
     \<lparr>test_index = audit_index,
      rf_fitted = (\<lambda>xs. Inr 0.8),
      gb_fitted = (\<lambda>xs. Inr 0.6),
      rf_pred = replicate 22 0.8,
      gb_pred = replicate 22 0.6,
      scaler_fitted = standard_scaler (replicate 10 0) (replicate 10 1),
      performance = [],
      rf_importances = replicate 10 0.1,
      gb_importances = replicate 10 0.1\<rparr>"

definition example_engine :: engine where
  "example_engine = fst (train_model init_engine empty_heap example_frame example_run)"

definition example_heap :: heap where
  "example_heap = snd (train_model init_engine empty_heap example_frame example_run)"

definition example_applicant :: "real list" where
  "example_applicant = [700, 5000, 1000, 0.9, 0.5, 0.5, 0.5, 0.5, 0.5, 0.5]"

text \<open>A training run on a frame that has only the first three feature columns.\<close>

definition short_frame :: train_frame where
  "short_frame =
     example_frame\<lparr>frame_columns :=
       take 3 (feature_names init_engine) @ [''approved'', ''race'', ''gender'', ''age'']\<rparr>"

definition short_run :: sk_run where
  "short_run =
     example_run\<lparr>scaler_fitted := standard_scaler (replicate 3 0) (replicate 3 1),
                 rf_importances := replicate 3 0.1,
                 gb_importances := replicate 3 0.1\<rparr>"

definition short_engine :: engine where
  "short_engine = fst (train_model init_engine empty_heap short_frame short_run)"

text \<open>The sample frame without its demographic columns.\<close>

definition no_demographics_frame :: train_frame where
  "no_demographics_frame = example_frame\<lparr>frame_columns := feature_names init_engine @ [''approved'']\<rparr>"

text \<open>An applicant with a negative monthly income.\<close>

definition nan_applicant :: "real list" where
  "nan_applicant = [300, -1000, 1000000, 0.5, 0.5, 0.5, 0.5, 0.5, 0.5, 0.5]"

text \<open>
  The sample engine after a training run whose precision score raised, as scikit-learn
  does for labels that are not coded 0 and 1.
\<close>

definition aborted_engine :: engine where
  "aborted_engine =
     fst (snd (train_model_run init_engine empty_heap example_frame example_run
                 (Some (ScoreRaises ''Target is multiclass but average=binary''))))"

section \<open>Facts about the audit iterations\<close>

lemma set_unique: "set (unique xs) = set xs"
  by (induction xs rule: unique.induct) auto

lemma distinct_unique: "distinct (unique xs)"
  by (induction xs rule: unique.induct) (auto simp: set_unique)

lemma mask_sum_count: "mask_sum (map (\<lambda>x. x = g) col) = count_list col g"
  by (induction col) (auto simp: mask_sum_def)

lemma count_list_le_length: "count_list xs g \<le> length xs"
  by (induction xs) auto

lemma loc_rows_length: "loc_rows rows idx = Inr demo \<Longrightarrow> length demo = length idx"
  by (induction idx arbitrary: demo) (auto split: option.splits sum.splits)

lemma mask_index_aligned:
  assumes "length preds = length col"
  shows "mask_index preds (map (\<lambda>x. x = g) col) =
           Inr (map fst (filter (\<lambda>(p, x). x = g) (zip preds col)))"
proof -
  have "map fst (filter snd (zip preds (map (\<lambda>x. x = g) col))) =
        map fst (filter (\<lambda>(p, x). x = g) (zip preds col))"
    using assms by (induction preds col rule: list_induct2) auto
  then show ?thesis using assms by (simp add: mask_index_def)
qed

lemma mask_index_subset: "mask_index preds m = Inr sel \<Longrightarrow> set sel \<subseteq> set preds"
  by (auto simp: mask_index_def split: if_splits dest!: set_zip_leftD)

text \<open>
  With predictions aligned to the rows the race loop cannot fail, and it records exactly
  the rate of every qualifying group, in order.
\<close>

lemma race_loop_aligned:
  "length preds = length col \<Longrightarrow>
   race_loop rs col preds acc =
     Inr (acc @ map (\<lambda>g. (g, group_rate col preds g)) (filter (\<lambda>g. count_list col g > 10) rs))"
  by (induction rs arbitrary: acc)
     (simp_all add: mask_sum_count mask_index_aligned group_rate_def Let_def)

lemma race_loop_length:
  "race_loop rs col preds acc = Inr res \<Longrightarrow>
   length res = length acc + length (filter (\<lambda>g. count_list col g > 10) rs)"
  by (induction rs arbitrary: acc)
     (auto simp: mask_sum_count Let_def split: if_splits sum.splits)

lemma race_loop_none:
  "\<forall>g\<in>set rs. count_list col g \<le> 10 \<Longrightarrow> race_loop rs col preds acc = Inr acc"
  by (induction rs arbitrary: acc) (simp_all add: mask_sum_count Let_def)

lemma gender_loop_none:
  "\<forall>g\<in>set gs. count_list col g \<le> 10 \<Longrightarrow> gender_loop gs col preds ov acc = Inr acc"
  by (induction gs arbitrary: acc) (simp_all add: mask_sum_count Let_def)

lemma gender_loop_aligned:
  "length preds = length col \<Longrightarrow> \<exists>ds. gender_loop gs col preds ov acc = Inr ds"
  by (induction gs arbitrary: acc) (simp_all add: mask_index_aligned Let_def)

lemma mean_unit:
  assumes "set xs \<subseteq> {0, 1}"
  shows "0 \<le> mean xs \<and> mean xs \<le> 1"
proof -
  have "0 \<le> sum_list xs \<and> sum_list xs \<le> int (length xs)"
    using assms by (induction xs) auto
  then have a: "0 \<le> real_of_int (sum_list xs)"
    and b: "real_of_int (sum_list xs) \<le> real (length xs)"
    by linarith+
  show ?thesis
  proof (cases "xs = []")
    case True
    then show ?thesis by (simp add: mean_def)
  next
    case False
    then have "0 < real (length xs)" by simp
    then show ?thesis using a b by (simp add: mean_def)
  qed
qed

lemma set_binarize: "set (binarize pp) \<subseteq> {0, 1}"
  by (auto simp: binarize_def)

lemma race_loop_unit:
  "race_loop rs col preds acc = Inr res \<Longrightarrow> set preds \<subseteq> {0, 1} \<Longrightarrow>
   (\<forall>x\<in>set (map snd acc). 0 \<le> x \<and> x \<le> 1) \<Longrightarrow>
   (\<forall>x\<in>set (map snd res). 0 \<le> x \<and> x \<le> 1)"
proof (induction rs arbitrary: acc)
  case Nil
  then show ?case by simp
next
  case (Cons r rs)
  show ?case
  proof (cases "mask_sum (map (\<lambda>x. x = r) col) > 10")
    case False
    with Cons.prems have "race_loop rs col preds acc = Inr res" by (simp add: Let_def)
    from Cons.IH[OF this Cons.prems(2) Cons.prems(3)] show ?thesis .
  next
    case True
    with Cons.prems(1) obtain sel where
      s: "mask_index preds (map (\<lambda>x. x = r) col) = Inr sel" and
      l: "race_loop rs col preds (acc @ [(r, mean sel)]) = Inr res"
      by (auto simp: Let_def split: sum.splits)
    have "set sel \<subseteq> {0, 1}" using mask_index_subset[OF s] Cons.prems(2) by blast
    then have "0 \<le> mean sel \<and> mean sel \<le> 1" by (rule mean_unit)
    then have "\<forall>x\<in>set (map snd (acc @ [(r, mean sel)])). 0 \<le> x \<and> x \<le> 1"
      using Cons.prems(3) by auto
    from Cons.IH[OF l Cons.prems(2) this] show ?thesis .
  qed
qed

lemma fold_min_eq: "(\<lambda>m i. if i < m then i else m) = (\<lambda>m (i::real). min i m)"
  by (auto simp: fun_eq_iff min_def)

lemma fold_max_eq: "(\<lambda>m i. if m < i then i else m) = (\<lambda>m (i::real). max i m)"
  by (auto simp: fun_eq_iff max_def)

lemma py_min_Min: "xs \<noteq> [] \<Longrightarrow> py_min xs = Min (set xs)"
proof (cases xs)
  case (Cons a list)
  show ?thesis using Min.set_eq_fold[of a list] unfolding Cons
    by (simp add: fold_min_eq foldl_conv_fold)
qed simp

lemma py_max_Max: "xs \<noteq> [] \<Longrightarrow> py_max xs = Max (set xs)"
proof (cases xs)
  case (Cons a list)
  show ?thesis using Max.set_eq_fold[of a list] unfolding Cons
    by (simp add: fold_max_eq foldl_conv_fold)
qed simp

lemma disparate_impact_unit:
  assumes "\<forall>x\<in>set (map snd rates). 0 \<le> x \<and> x \<le> 1"
  shows "0 \<le> disparate_impact_of rates \<and> disparate_impact_of rates \<le> 1"
proof (cases "length rates \<ge> 2 \<and> py_max (map snd rates) > 0")
  case False
  then show ?thesis by (auto simp: disparate_impact_of_def Let_def)
next
  case True
  let ?xs = "map snd rates"
  have ne: "?xs \<noteq> []" using True by auto
  have mn: "py_min ?xs = Min (set ?xs)" and mx: "py_max ?xs = Max (set ?xs)"
    using ne py_min_Min[of ?xs] py_max_Max[of ?xs] by blast+
  have el: "Min (set ?xs) \<in> set ?xs" using ne by (intro Min_in) auto
  then have a: "0 \<le> py_min ?xs" using assms mn by auto
  have b: "py_min ?xs \<le> py_max ?xs" unfolding mn mx
    using el by (intro Max_ge) auto
  have c: "0 < py_max ?xs" using True by simp
  have "disparate_impact_of rates = py_min ?xs / py_max ?xs"
    using True by (simp add: disparate_impact_of_def Let_def)
  then show ?thesis using a b c by simp
qed

section \<open>Facts about the stored report\<close>

lemma bias_try_shape:
  assumes "bias_metrics_try df idx pp = Inr (m, d)"
  shows "\<exists>demo rates gd.
           loc_rows (frame_rows df) idx = Inr demo \<and>
           race_loop (unique (map race demo)) (map race demo) (binarize pp) [] = Inr rates \<and>
           gender_loop (unique (map gender demo)) (map gender demo) (binarize pp)
             (np_mean (binarize pp)) [] = Inr gd \<and>
           d = disparate_impact_of rates \<and>
           m = [(''disparate_impact'', PyFloat (Fin d)),
                (''statistical_parity_difference'',
                   PyFloat (if gd \<noteq> [] then py_fmax gd else Fin 0)),
                (''equal_opportunity_difference'', PyFloat (Fin 0.05)),
                (''demographic_groups_analyzed'', PyInt (int (length rates)))]"
proof -
  obtain demo where 1: "loc_rows (frame_rows df) idx = Inr demo"
    using assms by (cases "loc_rows (frame_rows df) idx") (simp_all add: bias_metrics_try_def)
  have 2: "''race'' \<in> set (frame_columns df)"
    using assms 1 by (auto simp: bias_metrics_try_def Let_def split: if_splits)
  obtain rates where 3:
    "race_loop (unique (map race demo)) (map race demo) (binarize pp) [] = Inr rates"
    using assms 1 2
    by (cases "race_loop (unique (map race demo)) (map race demo) (binarize pp) []")
       (simp_all add: bias_metrics_try_def Let_def)
  have 4: "''gender'' \<in> set (frame_columns df)"
    using assms 1 2 3 by (auto simp: bias_metrics_try_def Let_def split: if_splits)
  obtain gd where 5:
    "gender_loop (unique (map gender demo)) (map gender demo) (binarize pp)
       (np_mean (binarize pp)) [] = Inr gd"
    using assms 1 2 3 4
    by (cases "gender_loop (unique (map gender demo)) (map gender demo) (binarize pp)
             (np_mean (binarize pp)) []")
       (simp_all add: bias_metrics_try_def Let_def)
  show ?thesis
    apply (rule exI[of _ demo], rule exI[of _ rates], rule exI[of _ gd])
    using assms 1 2 3 4 5 by (auto simp: bias_metrics_try_def Let_def)
qed

lemma bias_try_lookup:
  assumes "bias_metrics_try df idx pp = Inr (m, d)"
  shows "map_of m ''disparate_impact'' = Some (PyFloat (Fin d))"
    and "map_of m ''equal_opportunity_difference'' = Some (PyFloat (Fin 0.05))"
    and "map fst m = [''disparate_impact'', ''statistical_parity_difference'',
                      ''equal_opportunity_difference'', ''demographic_groups_analyzed'']"
proof -
  from bias_try_shape[OF assms] obtain spd n where
    m: "m = [(''disparate_impact'', PyFloat (Fin d)),
             (''statistical_parity_difference'', PyFloat spd),
             (''equal_opportunity_difference'', PyFloat (Fin 0.05)),
             (''demographic_groups_analyzed'', PyInt n)]"
    by blast
  show "map_of m ''disparate_impact'' = Some (PyFloat (Fin d))" by (simp add: m)
  show "map_of m ''equal_opportunity_difference'' = Some (PyFloat (Fin 0.05))" by (simp add: m)
  show "map fst m = [''disparate_impact'', ''statistical_parity_difference'',
                      ''equal_opportunity_difference'', ''demographic_groups_analyzed'']"
    by (simp add: m)
qed

lemma bias_try_aligned:
  assumes "loc_rows (frame_rows df) idx = Inr demo" "length pp = length idx"
    and "''race'' \<in> set (frame_columns df)" "''gender'' \<in> set (frame_columns df)"
  shows "\<exists>m. bias_metrics_try df idx pp =
           Inr (m, disparate_impact_of
                  (map (\<lambda>g. (g, group_rate (map race demo) (binarize pp) g))
                     (qualifying_groups (map race demo))))"
proof -
  have l: "length (binarize pp) = length (map race demo)"
          "length (binarize pp) = length (map gender demo)"
    using loc_rows_length[OF assms(1)] assms(2) by (simp_all add: binarize_def)
  obtain ds where g:
    "gender_loop (unique (map gender demo)) (map gender demo) (binarize pp)
       (np_mean (binarize pp)) [] = Inr ds"
    using gender_loop_aligned[OF l(2)] by blast
  show ?thesis
    by (simp add: bias_metrics_try_def assms(1,3,4) Let_def race_loop_aligned[OF l(1)] g
          qualifying_groups_def)
qed

lemma calc_ok_metrics:
  "bias_metrics_try df idx pp = Inr (m, d) \<Longrightarrow>
   bias_metrics (calculate_bias_metrics eng df idx pp) = m"
  by (simp add: calculate_bias_metrics_def)

lemma calc_error_metrics:
  "bias_metrics_try df idx pp = Inl e \<Longrightarrow>
   bias_metrics (calculate_bias_metrics eng df idx pp) = neutral_metrics"
  by (simp add: calculate_bias_metrics_def)

lemma calculate_bias_metrics_fields:
  "model (calculate_bias_metrics eng df idx pp) = model eng"
  "scaler (calculate_bias_metrics eng df idx pp) = scaler eng"
  "feature_names (calculate_bias_metrics eng df idx pp) = feature_names eng"
  "feature_importance (calculate_bias_metrics eng df idx pp) = feature_importance eng"
  "model_performance (calculate_bias_metrics eng df idx pp) = model_performance eng"
  by (simp_all add: calculate_bias_metrics_def split: sum.splits prod.splits)

section \<open>Facts about training and inference\<close>

lemma train_model_heap:
  "snd (train_model eng h df run) =
     h\<lparr>cells := (cells h)(next_free h :=
          \<lparr>table_columns = [''feature'', ''importance''],
           table_rows = sort_key (\<lambda>(f, w). - w)
             (zip (filter (\<lambda>c. c \<notin> set [''approved'', ''race'', ''gender'', ''age''])
                     (frame_columns df))
                  (map (\<lambda>(a, b). (a + b) / 2) (zip (rf_importances run) (gb_importances run))))\<rparr>),
       next_free := Suc (next_free h)\<rparr>"
  by (simp add: train_model_def Let_def alloc_def)

lemma train_model_fields:
  "model (fst (train_model eng h df run)) = Some \<lparr>rf = rf_fitted run, gb = gb_fitted run\<rparr>"
  "scaler (fst (train_model eng h df run)) = scaler_fitted run"
  "feature_names (fst (train_model eng h df run)) = feature_names eng"
  "feature_importance (fst (train_model eng h df run)) = Some (next_free h)"
  by (simp_all add: train_model_def Let_def alloc_def calculate_bias_metrics_fields)

lemma make_feature_df_ok:
  "make_feature_df names features =
    (if length features \<le> length names then Inr (zip (take (length features) names) features)
     else Inl (ColumnCountError (length names) (length features)))"
  by (auto simp: make_feature_df_def Let_def min_def)

text \<open>
  Whenever a probability is predicted the explanation is built and returned, and an
  error of the prediction is the error of the explanation.
\<close>

lemma generate_explanation_ok:
  assumes "predict_probability eng x = Inr p"
  shows "generate_explanation eng h x =
     Inr \<lparr>decision = fst (decision_band p),
          confidence = snd (decision_band p),
          risk_score = 1 - p,
          approval_probability = p,
          key_factors = take 5 (sort_reverse impact (feature_contributions eng h x))\<rparr>"
proof -
  obtain m where "model eng = Some m"
    using assms by (cases "model eng") (simp_all add: predict_probability_def)
  then show ?thesis
    using assms by (simp add: generate_explanation_def Let_def split: prod.splits)
qed

lemma generate_explanation_error:
  "predict_probability eng x = Inl e \<Longrightarrow> generate_explanation eng h x = Inl e"
  by (cases "model eng") (simp_all add: generate_explanation_def predict_probability_def)

lemma train_model_stored_agrees:
  "model (train_model_stored eng run) = model (fst (train_model eng h df run))"
  "scaler (train_model_stored eng run) = scaler (fst (train_model eng h df run))"
  "feature_names (train_model_stored eng run) = feature_names (fst (train_model eng h df run))"
  by (simp_all add: train_model_stored_def train_model_fields)

section \<open>Disparate impact\<close>

text \<open>
  Claim C1, as the code has it. For an audit whose frame has both demographic columns and
  holds every held-out label: when the predictions are aligned with the held-out rows and
  at least two race groups qualify (strictly more than 10 rows each), the stored
  disparate impact is the least rate divided by the greatest rate over the qualifying
  groups, and it is 1 (not 0) when the greatest rate is 0; when fewer than two groups
  qualify the stored disparate impact is exactly 1.
\<close>

theorem disparate_impact_value:
  assumes "loc_rows (frame_rows df) idx = Inr demo"
    and "''race'' \<in> set (frame_columns df)" and "''gender'' \<in> set (frame_columns df)"
  shows "(length pp = length idx \<and> 2 \<le> length (qualifying_groups (map race demo)) \<longrightarrow>
            map_of (bias_metrics (calculate_bias_metrics eng df idx pp)) ''disparate_impact'' =
              Some (PyFloat (Fin
                (let R = group_rate (map race demo) (binarize pp) `
                           set (qualifying_groups (map race demo))
                 in if Max R > 0 then Min R / Max R else 1)))) \<and>
         (length (qualifying_groups (map race demo)) < 2 \<longrightarrow>
            map_of (bias_metrics (calculate_bias_metrics eng df idx pp)) ''disparate_impact'' =
              Some (PyFloat (Fin 1)))"
proof (intro conjI impI)
  assume a: "length pp = length idx \<and> 2 \<le> length (qualifying_groups (map race demo))"
  let ?col = "map race demo"
  let ?rs = "map (\<lambda>g. (g, group_rate ?col (binarize pp) g)) (qualifying_groups ?col)"
  obtain m where t: "bias_metrics_try df idx pp = Inr (m, disparate_impact_of ?rs)"
    using bias_try_aligned[OF assms(1) _ assms(2,3)] a by blast
  have ne: "map snd ?rs \<noteq> []" using a by auto
  have s: "set (map snd ?rs) = group_rate ?col (binarize pp) ` set (qualifying_groups ?col)"
    by (simp add: image_image)
  have l2: "2 \<le> length ?rs" using a by simp
  have d: "disparate_impact_of ?rs =
     (let R = group_rate ?col (binarize pp) ` set (qualifying_groups ?col)
      in if Max R > 0 then Min R / Max R else 1)"
    unfolding disparate_impact_of_def Let_def py_min_Min[OF ne] py_max_Max[OF ne] s
    using l2 by simp
  show "map_of (bias_metrics (calculate_bias_metrics eng df idx pp)) ''disparate_impact'' =
              Some (PyFloat (Fin
                (let R = group_rate (map race demo) (binarize pp) `
                           set (qualifying_groups (map race demo))
                 in if Max R > 0 then Min R / Max R else 1)))"
    using bias_try_lookup(1)[OF t] by (simp only: calc_ok_metrics[OF t] d)
next
  assume a: "length (qualifying_groups (map race demo)) < 2"
  show "map_of (bias_metrics (calculate_bias_metrics eng df idx pp)) ''disparate_impact'' =
              Some (PyFloat (Fin 1))"
  proof (cases "bias_metrics_try df idx pp")
    case (Inl e)
    then show ?thesis by (simp add: calc_error_metrics neutral_metrics_def)
  next
    case (Inr md)
    obtain m d where md: "md = (m, d)" by (cases md)
    note t = Inr[unfolded md]
    from bias_try_shape[OF t] assms(1) obtain rates where
      r: "race_loop (unique (map race demo)) (map race demo) (binarize pp) [] = Inr rates" and
      d: "d = disparate_impact_of rates"
      by auto
    have "length rates < 2" using race_loop_length[OF r] a by (simp add: qualifying_groups_def)
    then have "d = 1" by (simp add: d disparate_impact_of_def)
    then show ?thesis using bias_try_lookup(1)[OF t] by (simp only: calc_ok_metrics[OF t])
  qed
qed

text \<open>
  Two groups of 11 rows with rates 1 and 5/11 give the ratio 5/11; the first 11 rows
  with their 11 predictions form a single group and give 1.
\<close>

theorem disparate_impact_value_witness:
  "loc_rows (frame_rows example_frame) audit_index = Inr audit_rows \<and>
   ''race'' \<in> set (frame_columns example_frame) \<and>
   ''gender'' \<in> set (frame_columns example_frame) \<and>
   length mixed_proba = length audit_index \<and>
   2 \<le> length (qualifying_groups (map race audit_rows)) \<and>
   map_of (bias_metrics (calculate_bias_metrics init_engine example_frame audit_index mixed_proba))
     ''disparate_impact'' = Some (PyFloat (Fin (5 / 11))) \<and>
   loc_rows (frame_rows example_frame) (take 11 audit_index) = Inr (take 11 audit_rows) \<and>
   length (qualifying_groups (map race (take 11 audit_rows))) < 2 \<and>
   map_of (bias_metrics
       (calculate_bias_metrics init_engine example_frame (take 11 audit_index)
          (take 11 mixed_proba)))
     ''disparate_impact'' = Some (PyFloat (Fin 1))"
proof -
  have h: "loc_rows (frame_rows example_frame) audit_index = Inr audit_rows" by code_simp
  have c1: "''race'' \<in> set (frame_columns example_frame)" by code_simp
  have c2: "''gender'' \<in> set (frame_columns example_frame)" by code_simp
  have q: "length mixed_proba = length audit_index \<and>
           2 \<le> length (qualifying_groups (map race audit_rows))" by code_simp
  have v: "(let R = group_rate (map race audit_rows) (binarize mixed_proba) `
                     set (qualifying_groups (map race audit_rows))
            in if Max R > 0 then Min R / Max R else 1) = 5 / 11" by code_simp
  have h': "loc_rows (frame_rows example_frame) (take 11 audit_index) = Inr (take 11 audit_rows)"
    by code_simp
  have q': "length (qualifying_groups (map race (take 11 audit_rows))) < 2" by code_simp
  show ?thesis
    using disparate_impact_value[OF h c1 c2, of mixed_proba init_engine]
          disparate_impact_value[OF h' c1 c2, of "take 11 mixed_proba" init_engine]
          h c1 c2 q v h' q'
    by simp
qed

text \<open>
  Two qualifying groups whose predictions are all negative: both rates are 0, and the
  guard of line 195 stores 1, not 0.
\<close>

theorem disparate_impact_zero_max_counterexample:
  "loc_rows (frame_rows example_frame) audit_index = Inr audit_rows \<and>
   length denied_proba = length audit_index \<and>
   qualifying_groups (map race audit_rows) = [1, 2] \<and>
   group_rate (map race audit_rows) (binarize denied_proba) 1 = 0 \<and>
   group_rate (map race audit_rows) (binarize denied_proba) 2 = 0 \<and>
   map_of (bias_metrics (calculate_bias_metrics init_engine example_frame audit_index denied_proba))
     ''disparate_impact'' = Some (PyFloat (Fin 1)) \<and>
   map_of (bias_metrics (calculate_bias_metrics init_engine example_frame audit_index denied_proba))
     ''disparate_impact'' \<noteq> Some (PyFloat (Fin 0))"
  by code_simp

section \<open>Decision bands\<close>

text \<open>
  Claim C2. Every probability falls in exactly one of the five bands, with the lower
  bound of each band inclusive: at least 0.70 is APPROVED/High, from 0.55 below 0.70
  APPROVED/Medium, from 0.40 below 0.55 CONDITIONAL/Medium, from 0.25 below 0.40
  CONDITIONAL/Low, below 0.25 DENIED/High. Whenever the fused probability of an
  applicant is \<open>p\<close>, \<open>generate_explanation\<close> returns an explanation that reports
  \<open>p\<close> and carries the decision and confidence of the band of \<open>p\<close>; and every
  explanation it returns reports the fused probability and carries its band.
\<close>

theorem decision_band_table:
  "(p \<ge> 0.7 \<longrightarrow> decision_band p = (''APPROVED'', ''High'')) \<and>
   (0.55 \<le> p \<and> p < 0.7 \<longrightarrow> decision_band p = (''APPROVED'', ''Medium'')) \<and>
   (0.4 \<le> p \<and> p < 0.55 \<longrightarrow> decision_band p = (''CONDITIONAL'', ''Medium'')) \<and>
   (0.25 \<le> p \<and> p < 0.4 \<longrightarrow> decision_band p = (''CONDITIONAL'', ''Low'')) \<and>
   (p < 0.25 \<longrightarrow> decision_band p = (''DENIED'', ''High'')) \<and>
   (\<forall>eng h x. predict_probability eng x = Inr p \<longrightarrow>
      (\<exists>e. generate_explanation eng h x = Inr e \<and> approval_probability e = p \<and>
           (decision e, confidence e) = decision_band p)) \<and>
   (\<forall>eng h x e. generate_explanation eng h x = Inr e \<and> approval_probability e = p \<longrightarrow>
      predict_probability eng x = Inr p \<and> (decision e, confidence e) = decision_band p)"
proof -
  have t1: "p \<ge> 0.7 \<longrightarrow> decision_band p = (''APPROVED'', ''High'')"
    by (simp add: decision_band_def)
  have t2: "0.55 \<le> p \<and> p < 0.7 \<longrightarrow> decision_band p = (''APPROVED'', ''Medium'')"
    by (simp add: decision_band_def)
  have t3: "0.4 \<le> p \<and> p < 0.55 \<longrightarrow> decision_band p = (''CONDITIONAL'', ''Medium'')"
    by (simp add: decision_band_def)
  have t4: "0.25 \<le> p \<and> p < 0.4 \<longrightarrow> decision_band p = (''CONDITIONAL'', ''Low'')"
    by (simp add: decision_band_def)
  have t5: "p < 0.25 \<longrightarrow> decision_band p = (''DENIED'', ''High'')"
    by (simp add: decision_band_def)
  have t6: "\<forall>eng h x. predict_probability eng x = Inr p \<longrightarrow>
      (\<exists>e. generate_explanation eng h x = Inr e \<and> approval_probability e = p \<and>
           (decision e, confidence e) = decision_band p)"
  proof (intro allI impI)
    fix eng :: engine and h :: heap and x :: "real list"
    assume a: "predict_probability eng x = Inr p"
    show "\<exists>e. generate_explanation eng h x = Inr e \<and> approval_probability e = p \<and>
           (decision e, confidence e) = decision_band p"
      unfolding generate_explanation_ok[OF a, of h] by simp
  qed
  have g: "\<And>eng h x e. generate_explanation eng h x = Inr e \<Longrightarrow>
          predict_probability eng x = Inr (approval_probability e) \<and>
          (decision e, confidence e) = decision_band (approval_probability e)"
    by (auto simp: generate_explanation_def Let_def split: option.splits sum.splits prod.splits)
  have t7: "\<forall>eng h x e. generate_explanation eng h x = Inr e \<and> approval_probability e = p \<longrightarrow>
      predict_probability eng x = Inr p \<and> (decision e, confidence e) = decision_band p"
    using g by blast
  show ?thesis by (intro conjI) (rule t1 t2 t3 t4 t5 t6 t7)+
qed

text \<open>The sample engine and what it predicts for the sample applicant.\<close>

lemma example_engine_fields:
  "model example_engine = Some \<lparr>rf = (\<lambda>xs. Inr 0.8), gb = (\<lambda>xs. Inr 0.6)\<rparr>"
  "scaler example_engine = standard_scaler (replicate 10 0) (replicate 10 1)"
  "feature_names example_engine = feature_names init_engine"
  "feature_importance example_engine = Some 0"
  by (simp_all add: example_engine_def train_model_fields example_run_def empty_heap_def)

lemma example_predict: "predict_probability example_engine example_applicant = Inr 0.7"
  by (simp add: predict_probability_def example_engine_fields make_feature_df_ok init_engine_def
        example_applicant_def standard_scaler_def)

text \<open>The boundary values of each band, and the sample explanation at 0.7.\<close>

theorem decision_band_table_witness:
  "decision_band 0.7 = (''APPROVED'', ''High'') \<and>
   decision_band 0.6999 = (''APPROVED'', ''Medium'') \<and>
   decision_band 0.55 = (''APPROVED'', ''Medium'') \<and>
   decision_band 0.4 = (''CONDITIONAL'', ''Medium'') \<and>
   decision_band 0.25 = (''CONDITIONAL'', ''Low'') \<and>
   decision_band 0.2499 = (''DENIED'', ''High'') \<and>
   predict_probability example_engine example_applicant = Inr 0.7 \<and>
   \<not> isl (generate_explanation example_engine example_heap example_applicant) \<and>
   approval_probability
     (projr (generate_explanation example_engine example_heap example_applicant)) = 0.7 \<and>
   decision (projr (generate_explanation example_engine example_heap example_applicant)) =
     ''APPROVED'' \<and>
   confidence (projr (generate_explanation example_engine example_heap example_applicant)) =
     ''High''"
proof -
  note t = decision_band_table[of "0.7"]
  have b: "decision_band 0.7 = (''APPROVED'', ''High'')"
    using t[THEN conjunct1] by simp
  note link = t[THEN conjunct2, THEN conjunct2, THEN conjunct2, THEN conjunct2, THEN conjunct2,
      THEN conjunct1]
  obtain e where e: "generate_explanation example_engine example_heap example_applicant = Inr e"
    and p: "approval_probability e = 0.7"
    and d: "(decision e, confidence e) = decision_band 0.7"
    using link example_predict by blast
  have dc: "decision e = ''APPROVED'' \<and> confidence e = ''High''" using d b by simp
  have b2: "decision_band 0.6999 = (''APPROVED'', ''Medium'')"
    using decision_band_table[of "0.6999", THEN conjunct2, THEN conjunct1] by simp
  have b3: "decision_band 0.55 = (''APPROVED'', ''Medium'')"
    using decision_band_table[of "0.55", THEN conjunct2, THEN conjunct1] by simp
  have b4: "decision_band 0.4 = (''CONDITIONAL'', ''Medium'')"
    using decision_band_table[of "0.4", THEN conjunct2, THEN conjunct2, THEN conjunct1] by simp
  have b5: "decision_band 0.25 = (''CONDITIONAL'', ''Low'')"
    using decision_band_table[of "0.25", THEN conjunct2, THEN conjunct2, THEN conjunct2,
        THEN conjunct1]
    by simp
  have b6: "decision_band 0.2499 = (''DENIED'', ''High'')"
    using decision_band_table[of "0.2499", THEN conjunct2, THEN conjunct2, THEN conjunct2,
        THEN conjunct2, THEN conjunct1]
    by simp
  have r: "\<not> isl (generate_explanation example_engine example_heap example_applicant) \<and>
     projr (generate_explanation example_engine example_heap example_applicant) = e"
    by (simp add: e)
  show ?thesis
    by (intro conjI) (simp_all only: b b2 b3 b4 b5 b6 example_predict r p dc simp_thms)
qed

section \<open>Fused probability\<close>

text \<open>
  Claim C3. Whenever a trained model returns a probability for a feature vector, the
  scaler fitted by that training run has transformed the vector (labelled with the
  schema's first names), both fitted classifiers have returned a positive-class
  probability for the scaled vector, and the result is their unweighted mean
  \<open>(a + b) / 2\<close>.
\<close>

theorem predict_probability_mean:
  assumes "predict_probability (fst (train_model eng h df run)) features = Inr p"
  shows "\<exists>xs a b.
           scaler_fitted run (zip (take (length features) (feature_names eng)) features) = Inr xs \<and>
           rf_fitted run xs = Inr a \<and> gb_fitted run xs = Inr b \<and> p = (a + b) / 2"
  using assms
  by (auto simp: predict_probability_def train_model_fields make_feature_df_ok
        split: sum.splits if_splits)

text \<open>The sample engine fuses 0.8 and 0.6 into 0.7.\<close>

theorem predict_probability_mean_witness:
  "predict_probability (fst (train_model init_engine empty_heap example_frame example_run))
     example_applicant = Inr 0.7 \<and>
   (\<exists>xs a b.
      scaler_fitted example_run
        (zip (take (length example_applicant) (feature_names init_engine)) example_applicant) = Inr xs \<and>
      rf_fitted example_run xs = Inr a \<and> gb_fitted example_run xs = Inr b \<and> 0.7 = (a + b) / 2)"
proof -
  have h: "predict_probability (fst (train_model init_engine empty_heap example_frame example_run))
     example_applicant = Inr 0.7"
    using example_predict by (simp add: example_engine_def)
  show ?thesis using predict_probability_mean[OF h] h by simp
qed

section \<open>The not-trained error\<close>

lemma predict_not_trained_iff:
  "predict_probability eng x = Inl ModelNotTrained \<longleftrightarrow> model eng = None"
proof (cases "model eng")
  case None
  then show ?thesis by (simp add: predict_probability_def)
next
  case (Some m)
  have "predict_probability eng x \<noteq> Inl ModelNotTrained"
    by (simp add: predict_probability_def Some make_feature_df_ok split: sum.splits)
  then show ?thesis using Some by simp
qed

lemma explain_not_trained_iff:
  "generate_explanation eng h x = Inl ModelNotTrained \<longleftrightarrow> model eng = None"
proof (cases "model eng")
  case None
  then show ?thesis by (simp add: generate_explanation_def)
next
  case (Some m)
  have p: "predict_probability eng x \<noteq> Inl ModelNotTrained"
    using predict_not_trained_iff[of eng x] Some by simp
  have "generate_explanation eng h x \<noteq> Inl ModelNotTrained"
  proof (cases "predict_probability eng x")
    case (Inl e)
    then show ?thesis using generate_explanation_error[OF Inl, of h] p by simp
  next
    case (Inr q)
    then show ?thesis using generate_explanation_ok[OF Inr, of h] by simp
  qed
  then show ?thesis using Some by simp
qed

text \<open>
  Claim C7, as the code has it. \<open>predict_probability\<close> and \<open>generate_explanation\<close>
  fail with the not-trained error exactly while no model is stored, and then return no
  score. A training run that completes stores a model, so that afterwards neither
  operation can fail with that error; so does a run that raises while scoring, after
  line 146, whereas a run that raises before that line leaves the stored model as it
  was.
\<close>

theorem not_trained_error:
  "(predict_probability eng x = Inl ModelNotTrained \<longleftrightarrow> model eng = None) \<and>
   (generate_explanation eng h x = Inl ModelNotTrained \<longleftrightarrow> model eng = None) \<and>
   (model eng = None \<longrightarrow>
      predict_probability eng x = Inl ModelNotTrained \<and>
      generate_explanation eng h x = Inl ModelNotTrained) \<and>
   predict_probability (fst (train_model eng h0 df run)) x \<noteq> Inl ModelNotTrained \<and>
   generate_explanation (fst (train_model eng h0 df run)) h x \<noteq> Inl ModelNotTrained \<and>
   model (fst (snd (train_model_run eng h0 df run None))) \<noteq> None \<and>
   model (fst (snd (train_model_run eng h0 df run (Some (ScoreRaises msg))))) \<noteq> None \<and>
   model (fst (snd (train_model_run eng h0 df run (Some (FitRaises msg))))) = model eng"
proof -
  have m: "model (fst (train_model eng h0 df run)) \<noteq> None" by (simp add: train_model_fields)
  have 3: "model eng = None \<longrightarrow>
      predict_probability eng x = Inl ModelNotTrained \<and>
      generate_explanation eng h x = Inl ModelNotTrained"
    using predict_not_trained_iff[of eng x] explain_not_trained_iff[of eng h x] by blast
  have 4: "predict_probability (fst (train_model eng h0 df run)) x \<noteq> Inl ModelNotTrained"
    using predict_not_trained_iff[of "fst (train_model eng h0 df run)" x] m by blast
  have 5: "generate_explanation (fst (train_model eng h0 df run)) h x \<noteq> Inl ModelNotTrained"
    using explain_not_trained_iff[of "fst (train_model eng h0 df run)" h x] m by blast
  have 6: "model (fst (snd (train_model_run eng h0 df run None))) \<noteq> None"
    using m by (simp add: train_model_run_def)
  have 7: "model (fst (snd (train_model_run eng h0 df run (Some (ScoreRaises msg))))) \<noteq> None"
    by (simp add: train_model_run_def train_model_stored_def)
  have 8: "model (fst (snd (train_model_run eng h0 df run (Some (FitRaises msg))))) = model eng"
    by (simp add: train_model_run_def)
  show ?thesis
    by (intro conjI) (rule predict_not_trained_iff explain_not_trained_iff 3 4 5 6 7 8)+
qed

text \<open>A new engine has no model and refuses; the trained sample engine does not.\<close>

theorem not_trained_error_witness:
  "model init_engine = None \<and>
   predict_probability init_engine example_applicant = Inl ModelNotTrained \<and>
   generate_explanation init_engine empty_heap example_applicant = Inl ModelNotTrained \<and>
   predict_probability (fst (train_model init_engine empty_heap example_frame example_run))
     example_applicant \<noteq> Inl ModelNotTrained"
proof -
  have h: "model init_engine = None" by (simp add: init_engine_def)
  note t = not_trained_error[of init_engine example_applicant empty_heap empty_heap
            example_frame example_run]
  note a = t[THEN conjunct2, THEN conjunct2, THEN conjunct1]
  note b = t[THEN conjunct2, THEN conjunct2, THEN conjunct2, THEN conjunct1]
  show ?thesis using a b h by blast
qed

text \<open>
  A training run that raised while scoring did not complete: the exception reached the
  caller and no performance, importance table or report was stored. Yet the engine
  returns a score and an explanation instead of the not-trained error.
\<close>

theorem not_trained_after_abort_counterexample:
  "fst (train_model_run init_engine empty_heap example_frame example_run
          (Some (ScoreRaises ''Target is multiclass but average=binary''))) =
     Some (SklearnError ''Target is multiclass but average=binary'') \<and>
   model_performance aborted_engine = [] \<and>
   feature_importance aborted_engine = None \<and>
   bias_metrics aborted_engine = [] \<and>
   predict_probability aborted_engine example_applicant = Inr 0.7 \<and>
   \<not> isl (generate_explanation aborted_engine empty_heap example_applicant)"
proof -
  have f: "model aborted_engine = Some \<lparr>rf = (\<lambda>xs. Inr 0.8), gb = (\<lambda>xs. Inr 0.6)\<rparr>"
    "scaler aborted_engine = standard_scaler (replicate 10 0) (replicate 10 1)"
    "feature_names aborted_engine = feature_names init_engine"
    "model_performance aborted_engine = []"
    "feature_importance aborted_engine = None"
    "bias_metrics aborted_engine = []"
    by (simp_all add: aborted_engine_def train_model_run_def train_model_stored_def
          example_run_def init_engine_def)
  have p: "predict_probability aborted_engine example_applicant = Inr 0.7"
    by (simp add: predict_probability_def f make_feature_df_ok init_engine_def
          example_applicant_def standard_scaler_def)
  have g: "\<not> isl (generate_explanation aborted_engine empty_heap example_applicant)"
    unfolding generate_explanation_ok[OF p] by simp
  have e: "fst (train_model_run init_engine empty_heap example_frame example_run
          (Some (ScoreRaises ''Target is multiclass but average=binary''))) =
     Some (SklearnError ''Target is multiclass but average=binary'')"
    by (simp add: train_model_run_def)
  show ?thesis by (intro conjI) (rule e f(4) f(5) f(6) p g)+
qed

section \<open>Reading the importance table\<close>

text \<open>
  Claim C10. Before any training run \<open>get_feature_importance\<close> returns a new empty
  table with the two columns \<^verbatim>\<open>feature\<close> and \<^verbatim>\<open>importance\<close> (it has no error
  path); after training it returns a new object that holds a copy of the stored table,
  so that whatever the caller writes into the returned object leaves the engine's own
  table unchanged.
\<close>

theorem get_feature_importance_copy:
  "(feature_importance eng = None \<longrightarrow>
      (case get_feature_importance eng h of (r, h') \<Rightarrow>
         cells h' r = \<lparr>table_columns = [''feature'', ''importance''], table_rows = []\<rparr>)) \<and>
   (case train_model eng h df run of (eng', h') \<Rightarrow>
      case get_feature_importance eng' h' of (r, h'') \<Rightarrow>
        (\<exists>r0. feature_importance eng' = Some r0 \<and> r \<noteq> r0 \<and>
           cells h'' r = cells h' r0 \<and> cells h'' r0 = cells h' r0 \<and>
           (\<forall>t. cells (heap_write h'' r t) r0 = cells h' r0)))"
proof -
  have a: "feature_importance eng = None \<longrightarrow>
      (case get_feature_importance eng h of (r, h') \<Rightarrow>
         cells h' r = \<lparr>table_columns = [''feature'', ''importance''], table_rows = []\<rparr>)"
    by (simp add: get_feature_importance_def alloc_def)
  obtain eng' h' where t: "train_model eng h df run = (eng', h')"
    by (cases "train_model eng h df run")
  have fi: "feature_importance eng' = Some (next_free h)"
    using train_model_fields(4)[of eng h df run] t by simp
  have nf: "next_free h' = Suc (next_free h)"
    using train_model_heap[of eng h df run] t by simp
  have b: "case get_feature_importance eng' h' of (r, h'') \<Rightarrow>
        (\<exists>r0. feature_importance eng' = Some r0 \<and> r \<noteq> r0 \<and>
           cells h'' r = cells h' r0 \<and> cells h'' r0 = cells h' r0 \<and>
           (\<forall>t. cells (heap_write h'' r t) r0 = cells h' r0))"
    by (simp add: get_feature_importance_def fi alloc_def nf heap_write_def)
  show ?thesis using a b t by simp
qed

text \<open>The untrained engine on the empty store.\<close>

theorem get_feature_importance_copy_witness:
  "feature_importance init_engine = None \<and>
   (case get_feature_importance init_engine empty_heap of (r, h') \<Rightarrow>
      cells h' r = \<lparr>table_columns = [''feature'', ''importance''], table_rows = []\<rparr>)"
proof -
  have h: "feature_importance init_engine = None" by (simp add: init_engine_def)
  show ?thesis
    using conjunct1[OF get_feature_importance_copy[of init_engine empty_heap example_frame example_run]] h
    by simp
qed

section \<open>Feature vectors shorter than the schema\<close>

lemma zip_take_length: "zip xs ys = zip (take (length ys) xs) ys"
proof (induction xs arbitrary: ys)
  case Nil
  then show ?case by simp
next
  case (Cons x xs)
  then show ?case by (cases ys) simp_all
qed

lemma predict_probability_trained:
  assumes "model eng = Some m" and "length features \<le> length (feature_names eng)"
  shows "predict_probability eng features =
     (case scaler eng (zip (take (length features) (feature_names eng)) features) of
        Inl msg \<Rightarrow> Inl (SklearnError msg)
      | Inr xs \<Rightarrow>
          (case rf m xs of
             Inl msg \<Rightarrow> Inl (SklearnError msg)
           | Inr a \<Rightarrow>
               (case gb m xs of
                  Inl msg \<Rightarrow> Inl (SklearnError msg)
                | Inr b \<Rightarrow> Inr ((a + b) / 2))))"
  using assms by (simp add: predict_probability_def make_feature_df_ok)

text \<open>
  Claim C8, as the code has it. For a trained model and a vector strictly shorter than
  the schema the engine itself validates nothing: the one-row frame is labelled with the
  schema's first names by position, and the contributions pair names and values by
  position. The call completes exactly when the fitted scaler and both classifiers
  accept a vector of that length; an error of the scaler is raised to the caller of
  either operation.
\<close>

theorem short_vector_inference:
  assumes "model eng = Some m" and "length features < length (feature_names eng)"
  shows "make_feature_df (feature_names eng) features =
           Inr (zip (take (length features) (feature_names eng)) features) \<and>
         zip (feature_names eng) features =
           zip (take (length features) (feature_names eng)) features \<and>
         ((\<exists>p. predict_probability eng features = Inr p) \<longleftrightarrow>
            (\<exists>xs a b. scaler eng (zip (take (length features) (feature_names eng)) features) = Inr xs \<and>
               rf m xs = Inr a \<and> gb m xs = Inr b)) \<and>
         ((\<exists>e. generate_explanation eng h features = Inr e) \<longleftrightarrow>
            (\<exists>xs a b. scaler eng (zip (take (length features) (feature_names eng)) features) = Inr xs \<and>
               rf m xs = Inr a \<and> gb m xs = Inr b)) \<and>
         (\<forall>msg. scaler eng (zip (take (length features) (feature_names eng)) features) = Inl msg \<longrightarrow>
            predict_probability eng features = Inl (SklearnError msg) \<and>
            generate_explanation eng h features = Inl (SklearnError msg))"
proof -
  let ?f = "zip (take (length features) (feature_names eng)) features"
  have le: "length features \<le> length (feature_names eng)" using assms(2) by simp
  have 1: "make_feature_df (feature_names eng) features = Inr ?f"
    using le by (simp add: make_feature_df_ok)
  have 2: "zip (feature_names eng) features = ?f"
    by (rule zip_take_length)
  note pp = predict_probability_trained[OF assms(1) le]
  have 3: "(\<exists>p. predict_probability eng features = Inr p) \<longleftrightarrow>
            (\<exists>xs a b. scaler eng ?f = Inr xs \<and> rf m xs = Inr a \<and> gb m xs = Inr b)"
  proof (cases "scaler eng ?f")
    case (Inl msg)
    then show ?thesis unfolding pp by simp
  next
    case xs: (Inr xs)
    show ?thesis
    proof (cases "rf m xs")
      case (Inl msg)
      then show ?thesis unfolding pp by (simp add: xs)
    next
      case a: (Inr a)
      show ?thesis
      proof (cases "gb m xs")
        case (Inl msg)
        then show ?thesis unfolding pp by (simp add: xs a)
      next
        case b: (Inr b)
        have "predict_probability eng features = Inr ((a + b) / 2)"
          unfolding pp by (simp add: xs a b)
        then show ?thesis using xs a b by blast
      qed
    qed
  qed
  have g: "(\<exists>e. generate_explanation eng h features = Inr e) \<longleftrightarrow>
           (\<exists>p. predict_probability eng features = Inr p)"
  proof (cases "predict_probability eng features")
    case (Inl e)
    then show ?thesis using generate_explanation_error[OF Inl, of h] by simp
  next
    case (Inr p)
    then show ?thesis using generate_explanation_ok[OF Inr, of h] by simp
  qed
  have 5: "\<forall>msg. scaler eng ?f = Inl msg \<longrightarrow>
            predict_probability eng features = Inl (SklearnError msg) \<and>
            generate_explanation eng h features = Inl (SklearnError msg)"
  proof (intro allI impI)
    fix msg assume a: "scaler eng ?f = Inl msg"
    have "predict_probability eng features = Inl (SklearnError msg)"
      unfolding pp by (simp add: a)
    then show "predict_probability eng features = Inl (SklearnError msg) \<and>
            generate_explanation eng h features = Inl (SklearnError msg)"
      using generate_explanation_error by blast
  qed
  show ?thesis
    apply (intro conjI)
        apply (rule 1)
       apply (rule 2)
      apply (rule 3)
     apply (simp only: g 3)
    apply (rule 5)
    done
qed

text \<open>An engine whose scaler was fitted on three columns accepts a three-entry vector.\<close>

lemma short_engine_fields:
  "model short_engine = Some \<lparr>rf = (\<lambda>xs. Inr 0.8), gb = (\<lambda>xs. Inr 0.6)\<rparr>"
  "scaler short_engine = standard_scaler (replicate 3 0) (replicate 3 1)"
  "feature_names short_engine = feature_names init_engine"
  by (simp_all add: short_engine_def train_model_fields short_run_def example_run_def)

text \<open>The three-column engine on the first three sample values.\<close>

theorem short_vector_inference_witness:
  "model short_engine = Some \<lparr>rf = (\<lambda>xs. Inr 0.8), gb = (\<lambda>xs. Inr 0.6)\<rparr> \<and>
   length (take 3 example_applicant) < length (feature_names short_engine) \<and>
   predict_probability short_engine (take 3 example_applicant) = Inr 0.7 \<and>
   (\<exists>e. generate_explanation short_engine example_heap (take 3 example_applicant) = Inr e)"
proof -
  have m: "model short_engine = Some \<lparr>rf = (\<lambda>xs. Inr 0.8), gb = (\<lambda>xs. Inr 0.6)\<rparr>"
    by (rule short_engine_fields)
  have l: "length (take 3 example_applicant) < length (feature_names short_engine)"
    by (simp add: short_engine_fields init_engine_def example_applicant_def)
  have p: "predict_probability short_engine (take 3 example_applicant) = Inr 0.7"
    by (simp add: predict_probability_def short_engine_fields make_feature_df_ok init_engine_def
          example_applicant_def standard_scaler_def)
  note t = short_vector_inference[OF m l, of example_heap]
  note a = t[THEN conjunct2, THEN conjunct2, THEN conjunct1]
  note b = t[THEN conjunct2, THEN conjunct2, THEN conjunct2, THEN conjunct1]
  have "\<exists>q. predict_probability short_engine (take 3 example_applicant) = Inr q"
    using p by (rule exI)
  then have "\<exists>e. generate_explanation short_engine example_heap (take 3 example_applicant) = Inr e"
    using a b by blast
  then show ?thesis using m l p by simp
qed

text \<open>
  The sample engine, whose scaler was fitted on the ten schema columns, raises on the
  first nine sample values in both operations.
\<close>

theorem short_vector_raises_counterexample:
  "model example_engine \<noteq> None \<and>
   length (take 9 example_applicant) < length (feature_names example_engine) \<and>
   predict_probability example_engine (take 9 example_applicant) =
     Inl (SklearnError ''X has a different number of features than StandardScaler is expecting'') \<and>
   generate_explanation example_engine example_heap (take 9 example_applicant) =
     Inl (SklearnError ''X has a different number of features than StandardScaler is expecting'')"
proof -
  have p: "predict_probability example_engine (take 9 example_applicant) =
     Inl (SklearnError ''X has a different number of features than StandardScaler is expecting'')"
    by (simp add: predict_probability_def example_engine_fields
        make_feature_df_ok init_engine_def example_applicant_def standard_scaler_def)
  show ?thesis
    using p generate_explanation_error[OF p, of example_heap]
    by (simp add: example_engine_fields init_engine_def example_applicant_def)
qed

section \<open>Range of the disparate impact\<close>

lemma neutral_lookup:
  "map_of neutral_metrics ''disparate_impact'' = Some (PyFloat (Fin 1))"
  "map_of neutral_metrics ''statistical_parity_difference'' = Some (PyFloat (Fin 0))"
  "map_of neutral_metrics ''equal_opportunity_difference'' = Some (PyFloat (Fin 0))"
  "map_of neutral_metrics ''demographic_groups_analyzed'' = Some (PyInt 0)"
  "map fst neutral_metrics = [''disparate_impact'', ''statistical_parity_difference'',
                      ''equal_opportunity_difference'', ''demographic_groups_analyzed'']"
  by (simp_all add: neutral_metrics_def)

text \<open>
  Claim C5, as the code has it. For every audit outcome the stored disparate impact is a
  finite number in the closed interval from 0 to 1 (0 included: the least rate may be 0
  while the greatest is positive), and it is exactly 1 whenever fewer than two groups
  qualify or the held-out rows cannot be read.
\<close>

theorem disparate_impact_range:
  "\<exists>d. map_of (bias_metrics (calculate_bias_metrics eng df idx pp)) ''disparate_impact'' =
          Some (PyFloat (Fin d)) \<and> 0 \<le> d \<and> d \<le> 1 \<and>
        (case loc_rows (frame_rows df) idx of
           Inl e \<Rightarrow> d = 1
         | Inr demo \<Rightarrow> length (qualifying_groups (map race demo)) < 2 \<longrightarrow> d = 1)"
proof (cases "bias_metrics_try df idx pp")
  case (Inl e)
  have m: "map_of (bias_metrics (calculate_bias_metrics eng df idx pp)) ''disparate_impact'' =
          Some (PyFloat (Fin 1))"
    by (simp only: calc_error_metrics[OF Inl] neutral_lookup)
  have "case loc_rows (frame_rows df) idx of
           Inl e \<Rightarrow> (1::real) = 1
         | Inr demo \<Rightarrow> length (qualifying_groups (map race demo)) < 2 \<longrightarrow> (1::real) = 1"
    by (simp split: sum.splits)
  then show ?thesis using m by (intro exI[of _ 1]) simp
next
  case (Inr md)
  obtain m d where md: "md = (m, d)" by (cases md)
  note t = Inr[unfolded md]
  from bias_try_shape[OF t] obtain demo rates where
    l: "loc_rows (frame_rows df) idx = Inr demo" and
    r: "race_loop (unique (map race demo)) (map race demo) (binarize pp) [] = Inr rates" and
    d: "d = disparate_impact_of rates"
    by auto
  have u: "\<forall>x\<in>set (map snd rates). 0 \<le> x \<and> x \<le> 1"
    using race_loop_unit[OF r set_binarize] by simp
  have b: "0 \<le> d \<and> d \<le> 1" using disparate_impact_unit[OF u] d by simp
  have q: "length (qualifying_groups (map race demo)) < 2 \<longrightarrow> d = 1"
    using race_loop_length[OF r] by (simp add: d disparate_impact_of_def qualifying_groups_def)
  have m: "map_of (bias_metrics (calculate_bias_metrics eng df idx pp)) ''disparate_impact'' =
          Some (PyFloat (Fin d))"
    using bias_try_lookup(1)[OF t] by (simp only: calc_ok_metrics[OF t])
  show ?thesis using m b q by (intro exI[of _ d]) (simp add: l)
qed

text \<open>The first 11 sample rows form a single group.\<close>

theorem disparate_impact_range_witness:
  "loc_rows (frame_rows example_frame) (take 11 audit_index) = Inr (take 11 audit_rows) \<and>
   length (qualifying_groups (map race (take 11 audit_rows))) < 2 \<and>
   map_of (bias_metrics (calculate_bias_metrics init_engine example_frame (take 11 audit_index)
       (take 11 mixed_proba))) ''disparate_impact'' = Some (PyFloat (Fin 1))"
proof -
  have h: "loc_rows (frame_rows example_frame) (take 11 audit_index) = Inr (take 11 audit_rows)"
    by code_simp
  have q: "length (qualifying_groups (map race (take 11 audit_rows))) < 2" by code_simp
  obtain d where
    m: "map_of (bias_metrics (calculate_bias_metrics init_engine example_frame (take 11 audit_index)
       (take 11 mixed_proba))) ''disparate_impact'' = Some (PyFloat (Fin d))" and
    c: "case loc_rows (frame_rows example_frame) (take 11 audit_index) of
           Inl e \<Rightarrow> d = 1
         | Inr demo \<Rightarrow> length (qualifying_groups (map race demo)) < 2 \<longrightarrow> d = 1"
    using disparate_impact_range[of init_engine example_frame "take 11 audit_index" "take 11 mixed_proba"]
    by blast
  have "d = 1" using c q by (simp add: h)
  then show ?thesis using h q m by simp
qed

text \<open>
  Two qualifying groups, one approved throughout and one denied throughout: the rates
  are 1 and 0 and the stored ratio is 0, outside the half-open interval.
\<close>

theorem disparate_impact_zero_counterexample:
  "loc_rows (frame_rows example_frame) audit_index = Inr audit_rows \<and>
   length split_proba = length audit_index \<and>
   qualifying_groups (map race audit_rows) = [1, 2] \<and>
   group_rate (map race audit_rows) (binarize split_proba) 1 = 1 \<and>
   group_rate (map race audit_rows) (binarize split_proba) 2 = 0 \<and>
   map_of (bias_metrics (calculate_bias_metrics init_engine example_frame audit_index split_proba))
     ''disparate_impact'' = Some (PyFloat (Fin 0))"
  by code_simp

section \<open>The audit never fails the training run\<close>

lemma train_model_bias_metrics:
  "bias_metrics (fst (train_model eng h df run)) =
     bias_metrics (calculate_bias_metrics eng df (test_index run)
        (map (\<lambda>(a, b). (a + b) / 2) (zip (rf_pred run) (gb_pred run))))"
  by (simp add: train_model_def Let_def alloc_def calculate_bias_metrics_def
        split: sum.splits prod.splits)

lemma train_model_completes:
  "model (fst (train_model eng h df run)) \<noteq> None"
  "last (logged (fst (train_model eng h df run))) = InfoTrainingCompleted"
  by (simp_all add: train_model_def Let_def alloc_def calculate_bias_metrics_fields)

lemma calc_error_logged:
  "bias_metrics_try df idx pp = Inl e \<Longrightarrow>
   logged (calculate_bias_metrics eng df idx pp) = logged eng @ [WarningBiasFailed e]"
  by (simp add: calculate_bias_metrics_def)

lemma small_audit:
  assumes "length idx \<le> 10"
  shows "(\<exists>e. bias_metrics_try df idx pp = Inl e) \<or>
         bias_metrics_try df idx pp =
           Inr ([(''disparate_impact'', PyFloat (Fin 1)),
                 (''statistical_parity_difference'', PyFloat (Fin 0)),
                 (''equal_opportunity_difference'', PyFloat (Fin 0.05)),
                 (''demographic_groups_analyzed'', PyInt 0)], 1)"
proof (cases "bias_metrics_try df idx pp")
  case (Inl e)
  then show ?thesis by blast
next
  case (Inr md)
  obtain m d where md: "md = (m, d)" by (cases md)
  note t = Inr[unfolded md]
  from bias_try_shape[OF t] obtain demo rates gd where
    l: "loc_rows (frame_rows df) idx = Inr demo" and
    r: "race_loop (unique (map race demo)) (map race demo) (binarize pp) [] = Inr rates" and
    g: "gender_loop (unique (map gender demo)) (map gender demo) (binarize pp)
             (np_mean (binarize pp)) [] = Inr gd" and
    d: "d = disparate_impact_of rates" and
    m: "m = [(''disparate_impact'', PyFloat (Fin d)),
                (''statistical_parity_difference'',
                   PyFloat (if gd \<noteq> [] then py_fmax gd else Fin 0)),
                (''equal_opportunity_difference'', PyFloat (Fin 0.05)),
                (''demographic_groups_analyzed'', PyInt (int (length rates)))]"
    by blast
  have len: "length demo \<le> 10" using loc_rows_length[OF l] assms by simp
  have cr: "\<forall>x\<in>set (unique (map race demo)). count_list (map race demo) x \<le> 10"
    using count_list_le_length[of "map race demo"] len by (auto intro: order_trans)
  have cg: "\<forall>x\<in>set (unique (map gender demo)). count_list (map gender demo) x \<le> 10"
    using count_list_le_length[of "map gender demo"] len by (auto intro: order_trans)
  have "rates = []" using r race_loop_none[OF cr, of "binarize pp" "[]"] by simp
  moreover have "gd = []" using g gender_loop_none[OF cg, of "binarize pp" _ "[]"] by simp
  ultimately have "m = [(''disparate_impact'', PyFloat (Fin 1)),
                 (''statistical_parity_difference'', PyFloat (Fin 0)),
                 (''equal_opportunity_difference'', PyFloat (Fin 0.05)),
                 (''demographic_groups_analyzed'', PyInt 0)] \<and> d = 1"
    using m d by (simp add: disparate_impact_of_def)
  then show ?thesis using t by simp
qed

text \<open>
  Claim C4. \<open>calculate_bias_metrics\<close> always returns an engine state: whenever the body
  of its \<^verbatim>\<open>try\<close> block raises, the handler logs a warning and stores the neutral
  report (disparate impact 1.0, statistical parity difference 0.0, no group analysed);
  held-out data of at most 10 rows, empty and single-row data included, gives these three
  values on every path; and \<open>train_model\<close> runs to its end with whatever report the
  audit stored.
\<close>

theorem bias_metrics_never_raise:
  "(\<forall>e. bias_metrics_try df idx pp = Inl e \<longrightarrow>
        bias_metrics (calculate_bias_metrics eng df idx pp) = neutral_metrics \<and>
        logged (calculate_bias_metrics eng df idx pp) = logged eng @ [WarningBiasFailed e]) \<and>
   map_of neutral_metrics ''disparate_impact'' = Some (PyFloat (Fin 1)) \<and>
   map_of neutral_metrics ''statistical_parity_difference'' = Some (PyFloat (Fin 0)) \<and>
   map_of neutral_metrics ''demographic_groups_analyzed'' = Some (PyInt 0) \<and>
   (length idx \<le> 10 \<longrightarrow>
      map_of (bias_metrics (calculate_bias_metrics eng df idx pp)) ''disparate_impact'' =
        Some (PyFloat (Fin 1)) \<and>
      map_of (bias_metrics (calculate_bias_metrics eng df idx pp)) ''statistical_parity_difference'' =
        Some (PyFloat (Fin 0)) \<and>
      map_of (bias_metrics (calculate_bias_metrics eng df idx pp)) ''demographic_groups_analyzed'' =
        Some (PyInt 0)) \<and>
   bias_metrics (fst (train_model eng h df run)) =
     bias_metrics (calculate_bias_metrics eng df (test_index run)
        (map (\<lambda>(a, b). (a + b) / 2) (zip (rf_pred run) (gb_pred run)))) \<and>
   model (fst (train_model eng h df run)) \<noteq> None \<and>
   last (logged (fst (train_model eng h df run))) = InfoTrainingCompleted"
proof -
  have 1: "\<forall>e. bias_metrics_try df idx pp = Inl e \<longrightarrow>
        bias_metrics (calculate_bias_metrics eng df idx pp) = neutral_metrics \<and>
        logged (calculate_bias_metrics eng df idx pp) = logged eng @ [WarningBiasFailed e]"
    using calc_error_metrics calc_error_logged by blast
  have 2: "length idx \<le> 10 \<longrightarrow>
      map_of (bias_metrics (calculate_bias_metrics eng df idx pp)) ''disparate_impact'' =
        Some (PyFloat (Fin 1)) \<and>
      map_of (bias_metrics (calculate_bias_metrics eng df idx pp)) ''statistical_parity_difference'' =
        Some (PyFloat (Fin 0)) \<and>
      map_of (bias_metrics (calculate_bias_metrics eng df idx pp)) ''demographic_groups_analyzed'' =
        Some (PyInt 0)"
  proof
    assume a: "length idx \<le> 10"
    from small_audit[OF a, of df pp] show
     "map_of (bias_metrics (calculate_bias_metrics eng df idx pp)) ''disparate_impact'' =
        Some (PyFloat (Fin 1)) \<and>
      map_of (bias_metrics (calculate_bias_metrics eng df idx pp)) ''statistical_parity_difference'' =
        Some (PyFloat (Fin 0)) \<and>
      map_of (bias_metrics (calculate_bias_metrics eng df idx pp)) ''demographic_groups_analyzed'' =
        Some (PyInt 0)"
    proof
      assume "\<exists>e. bias_metrics_try df idx pp = Inl e"
      then obtain e where e: "bias_metrics_try df idx pp = Inl e" by blast
      show ?thesis by (simp only: calc_error_metrics[OF e] neutral_lookup)
    next
      assume t: "bias_metrics_try df idx pp =
           Inr ([(''disparate_impact'', PyFloat (Fin 1)),
                 (''statistical_parity_difference'', PyFloat (Fin 0)),
                 (''equal_opportunity_difference'', PyFloat (Fin 0.05)),
                 (''demographic_groups_analyzed'', PyInt 0)], 1)"
      show ?thesis by (simp add: calc_ok_metrics[OF t])
    qed
  qed
  show ?thesis
    by (intro conjI) (rule 1 2 neutral_lookup train_model_bias_metrics train_model_completes)+
qed

text \<open>
  A frame without the \<^verbatim>\<open>race\<close> column makes the audit fail and fall back; empty and
  single-row data give the neutral values without failing.
\<close>

theorem bias_metrics_never_raise_witness:
  "bias_metrics_try no_demographics_frame audit_index mixed_proba = Inl (ColumnKeyError ''race'') \<and>
   bias_metrics (calculate_bias_metrics init_engine no_demographics_frame audit_index mixed_proba) =
     neutral_metrics \<and>
   logged (calculate_bias_metrics init_engine no_demographics_frame audit_index mixed_proba) =
     [WarningBiasFailed (ColumnKeyError ''race'')] \<and>
   length ([] :: nat list) \<le> 10 \<and>
   map_of (bias_metrics (calculate_bias_metrics init_engine example_frame [] []))
     ''disparate_impact'' = Some (PyFloat (Fin 1)) \<and>
   length [0::nat] \<le> 10 \<and>
   map_of (bias_metrics (calculate_bias_metrics init_engine example_frame [0] [0.9]))
     ''statistical_parity_difference'' = Some (PyFloat (Fin 0))"
proof -
  have e: "bias_metrics_try no_demographics_frame audit_index mixed_proba =
             Inl (ColumnKeyError ''race'')"
    by code_simp
  have l: "logged init_engine = []" by (simp add: init_engine_def)
  note a = bias_metrics_never_raise[of no_demographics_frame audit_index mixed_proba init_engine
      empty_heap example_run]
  note b = bias_metrics_never_raise[of example_frame "[]" "[]" init_engine empty_heap example_run]
  note c = bias_metrics_never_raise[of example_frame "[0]" "[0.9]" init_engine empty_heap example_run]
  have a': "bias_metrics (calculate_bias_metrics init_engine no_demographics_frame audit_index mixed_proba) =
     neutral_metrics \<and>
   logged (calculate_bias_metrics init_engine no_demographics_frame audit_index mixed_proba) =
     logged init_engine @ [WarningBiasFailed (ColumnKeyError ''race'')]"
    using a e by blast
  have b': "map_of (bias_metrics (calculate_bias_metrics init_engine example_frame [] []))
     ''disparate_impact'' = Some (PyFloat (Fin 1))"
    using b by simp
  have c': "map_of (bias_metrics (calculate_bias_metrics init_engine example_frame [0] [0.9]))
     ''statistical_parity_difference'' = Some (PyFloat (Fin 0))"
    using c by simp
  show ?thesis using e a' b' c' l by simp
qed

section \<open>The equal-opportunity placeholder\<close>

text \<open>
  Claim C6, as the code has it. In the report stored by a training run the
  equal-opportunity difference is never computed from the data: it is the constant 0.05
  when the audit completes and the constant 0.0 in the fallback report stored after a
  failure. The report has exactly the four keys below, none of which marks the value as
  unimplemented.
\<close>

theorem equal_opportunity_placeholder:
  "map fst (bias_metrics (fst (train_model eng h df run))) =
     [''disparate_impact'', ''statistical_parity_difference'',
      ''equal_opportunity_difference'', ''demographic_groups_analyzed''] \<and>
   map_of (bias_metrics (fst (train_model eng h df run))) ''equal_opportunity_difference'' =
     Some (PyFloat (Fin
       (case bias_metrics_try df (test_index run)
               (map (\<lambda>(a, b). (a + b) / 2) (zip (rf_pred run) (gb_pred run))) of
          Inl e \<Rightarrow> 0
        | Inr r \<Rightarrow> 0.05)))"
proof (cases "bias_metrics_try df (test_index run)
               (map (\<lambda>(a, b). (a + b) / 2) (zip (rf_pred run) (gb_pred run)))")
  case (Inl e)
  show ?thesis
    unfolding train_model_bias_metrics calc_error_metrics[OF Inl] Inl
    by (simp add: neutral_lookup)
next
  case (Inr md)
  obtain m d where md: "md = (m, d)" by (cases md)
  note t = Inr[unfolded md]
  show ?thesis
    unfolding train_model_bias_metrics calc_ok_metrics[OF t] t
    using bias_try_lookup(2,3)[OF t] by simp
qed

text \<open>
  Two training runs that store different values, 0.05 and 0.0, under the four keys
  only.
\<close>

theorem equal_opportunity_placeholder_counterexample:
  "map_of (bias_metrics (fst (train_model init_engine empty_heap example_frame example_run)))
     ''equal_opportunity_difference'' = Some (PyFloat (Fin 0.05)) \<and>
   map_of (bias_metrics (fst (train_model init_engine empty_heap no_demographics_frame example_run)))
     ''equal_opportunity_difference'' = Some (PyFloat (Fin 0)) \<and>
   map fst (bias_metrics (fst (train_model init_engine empty_heap example_frame example_run))) =
     [''disparate_impact'', ''statistical_parity_difference'',
      ''equal_opportunity_difference'', ''demographic_groups_analyzed'']"
  unfolding train_model_bias_metrics by code_simp

section \<open>Ranked key factors\<close>

text \<open>
  On floats other than \<^verbatim>\<open>nan\<close> the comparison is a total preorder. The sort always
  returns a rearrangement of its input, and it orders every list whose keys are free of
  \<^verbatim>\<open>nan\<close>: the leading run is sorted, and bisection splits a sorted prefix into the
  items not greater than the pivot and the items greater than it.
\<close>

lemma flt_asym: "flt a b \<Longrightarrow> \<not> flt b a"
  by (cases a; cases b) auto

lemma fge_iff: "a \<noteq> NaN \<Longrightarrow> b \<noteq> NaN \<Longrightarrow> fge a b = (\<not> flt a b)"
  by (cases a; cases b) auto

lemma fge_trans: "fge a b \<Longrightarrow> fge b c \<Longrightarrow> fge a c"
  by (cases a; cases b; cases c) auto

lemma flt_fge: "flt a b \<Longrightarrow> fge b a"
  by (cases a; cases b) auto

lemma bisect_bounds: "l \<le> r \<Longrightarrow> l \<le> bisect key xs pivot l r \<and> bisect key xs pivot l r \<le> r"
proof (induction key xs pivot l r rule: bisect.induct)
  case (1 key xs pivot l r)
  show ?case
  proof (cases "l < r")
    case False
    then show ?thesis using 1(3) by (simp add: bisect.simps)
  next
    case True
    let ?p = "l + (r - l) div 2"
    have p: "l \<le> ?p" "?p < r" using True by auto
    show ?thesis
    proof (cases "flt (key pivot) (key (xs ! ?p))")
      case t: True
      have "l \<le> bisect key xs pivot l ?p \<and> bisect key xs pivot l ?p \<le> ?p"
        using 1(1)[OF True refl t] p by simp
      then show ?thesis using True t p by (simp add: bisect.simps[of key xs pivot l r] Let_def)
    next
      case f: False
      have "?p + 1 \<le> bisect key xs pivot (?p + 1) r \<and> bisect key xs pivot (?p + 1) r \<le> r"
        using 1(2)[OF True refl f] p by simp
      then show ?thesis using True f p by (simp add: bisect.simps[of key xs pivot l r] Let_def)
    qed
  qed
qed

lemma set_binarysort: "set (binarysort key run rest) = set run \<union> set rest"
proof (induction rest arbitrary: run)
  case Nil
  then show ?case by simp
next
  case (Cons pivot rest)
  let ?l = "bisect key run pivot 0 (length run)"
  have "set (take ?l run @ [pivot] @ drop ?l run) = insert pivot (set run)"
    using set_append[of "take ?l run" "drop ?l run"] by auto
  then show ?case using Cons.IH[of "take ?l run @ [pivot] @ drop ?l run"] by (simp add: Let_def)
qed

lemma length_binarysort: "length (binarysort key run rest) = length run + length rest"
proof (induction rest arbitrary: run)
  case Nil
  then show ?case by simp
next
  case (Cons pivot rest)
  let ?l = "bisect key run pivot 0 (length run)"
  have "length (take ?l run @ [pivot] @ drop ?l run) = Suc (length run)"
    using bisect_bounds[of 0 "length run" key run pivot] by simp
  then show ?case using Cons.IH[of "take ?l run @ [pivot] @ drop ?l run"] by (simp add: Let_def)
qed

lemma set_list_sort: "set (list_sort key xs) = set xs"
proof -
  obtain n d where c: "count_run key xs = (n, d)" by (cases "count_run key xs")
  have "set (take n xs) \<union> set (drop n xs) = set xs"
    using set_append[of "take n xs" "drop n xs"] by simp
  then show ?thesis by (simp add: list_sort_def c set_binarysort)
qed

lemma length_list_sort: "length (list_sort key xs) = length xs"
proof -
  obtain n d where c: "count_run key xs = (n, d)" by (cases "count_run key xs")
  show ?thesis by (simp add: list_sort_def c length_binarysort)
qed

lemma set_sort_reverse: "set (sort_reverse key xs) = set xs"
  by (simp add: sort_reverse_def set_list_sort)

lemma length_sort_reverse: "length (sort_reverse key xs) = length xs"
  by (simp add: sort_reverse_def length_list_sort)

lemma fge_refl: "a \<noteq> NaN \<Longrightarrow> fge a a"
  by (cases a) auto

lemma flt_fge_trans: "flt a b \<Longrightarrow> fge c b \<Longrightarrow> flt a c"
  by (cases a; cases b; cases c) auto

lemma fge_not_flt: "fge a b \<Longrightarrow> \<not> flt a b"
  by (cases a; cases b) auto

lemma transp_asc: "transp (\<lambda>a b. fge (key b) (key a))"
  by (rule transpI) (blast intro: fge_trans)

lemma transp_desc: "transp (\<lambda>a b. fge (key a) (key b))"
  by (rule transpI) (blast intro: fge_trans)

lemma count_asc_sorted:
  "\<forall>x\<in>set (prev # xs). key x \<noteq> NaN \<Longrightarrow>
   sorted_wrt (\<lambda>a b. fge (key b) (key a)) (prev # take (count_asc key prev xs) xs)"
proof (induction xs arbitrary: prev)
  case Nil
  then show ?case by simp
next
  case (Cons x xs)
  show ?case
  proof (cases "flt (key x) (key prev)")
    case True
    then show ?thesis by simp
  next
    case False
    have a: "fge (key x) (key prev)" using False Cons.prems by (simp add: fge_iff)
    have "sorted_wrt (\<lambda>a b. fge (key b) (key a)) (x # take (count_asc key x xs) xs)"
      using Cons.IH[of x] Cons.prems by simp
    then have "sorted_wrt (\<lambda>a b. fge (key b) (key a)) (prev # x # take (count_asc key x xs) xs)"
      using a by (simp only: sorted_wrt2[OF transp_asc])
    then show ?thesis using False by simp
  qed
qed

lemma count_desc_sorted:
  "sorted_wrt (\<lambda>a b. fge (key a) (key b)) (prev # take (count_desc key prev xs) xs)"
proof (induction xs arbitrary: prev)
  case Nil
  then show ?case by simp
next
  case (Cons x xs)
  show ?case
  proof (cases "flt (key x) (key prev)")
    case False
    then show ?thesis by simp
  next
    case True
    have a: "fge (key prev) (key x)" using flt_fge[OF True] .
    have "sorted_wrt (\<lambda>a b. fge (key a) (key b)) (prev # x # take (count_desc key x xs) xs)"
      using a Cons.IH[of x] by (simp only: sorted_wrt2[OF transp_desc])
    then show ?thesis using True by simp
  qed
qed

lemma run_sorted:
  assumes "\<forall>x\<in>set xs. key x \<noteq> NaN" and "count_run key xs = (n, d)"
  shows "sorted_wrt (\<lambda>a b. fge (key b) (key a)) (if d then rev (take n xs) else take n xs)"
proof (cases "(key, xs)" rule: count_run.cases)
  case (1 k)
  then show ?thesis using assms(2) by auto
next
  case (2 k x)
  then show ?thesis using assms(2) by auto
next
  case (3 k x y ys)
  then have xs: "xs = x # y # ys" by simp
  show ?thesis
  proof (cases "flt (key y) (key x)")
    case True
    then have n: "n = 2 + count_desc key y ys" and d: "d" using assms(2) xs by auto
    have "sorted_wrt (\<lambda>a b. fge (key a) (key b)) (x # y # take (count_desc key y ys) ys)"
      using flt_fge[OF True] count_desc_sorted[of key y ys]
      by (simp only: sorted_wrt2[OF transp_desc])
    then have "sorted_wrt (\<lambda>a b. fge (key a) (key b)) (take n xs)" by (simp add: n xs)
    then show ?thesis using d by (simp add: sorted_wrt_rev)
  next
    case False
    then have n: "n = 2 + count_asc key y ys" and d: "\<not> d" using assms(2) xs by auto
    have a: "fge (key y) (key x)" using False assms(1) xs by (simp add: fge_iff)
    have "sorted_wrt (\<lambda>a b. fge (key b) (key a)) (y # take (count_asc key y ys) ys)"
      using count_asc_sorted[of y ys key] assms(1) xs by simp
    then have "sorted_wrt (\<lambda>a b. fge (key b) (key a)) (x # y # take (count_asc key y ys) ys)"
      using a by (simp only: sorted_wrt2[OF transp_asc])
    then show ?thesis using d by (simp add: n xs)
  qed
qed

lemma sorted_nth_le:
  assumes "sorted_wrt (\<lambda>a b. fge (key b) (key a)) xs" "\<forall>x\<in>set xs. key x \<noteq> NaN"
    and "i \<le> j" "j < length xs"
  shows "fge (key (xs ! j)) (key (xs ! i))"
proof (cases "i = j")
  case True
  then show ?thesis using assms(2,4) by (simp add: fge_refl)
next
  case False
  then have "i < j" using assms(3) by simp
  from sorted_wrt_nth_less[OF assms(1) this assms(4)] show ?thesis .
qed

lemma bisect_partition:
  assumes "sorted_wrt (\<lambda>a b. fge (key b) (key a)) xs" "\<forall>x\<in>set xs. key x \<noteq> NaN"
    and "key pivot \<noteq> NaN"
  shows "l \<le> r \<Longrightarrow> r \<le> length xs \<Longrightarrow>
         \<forall>i<l. \<not> flt (key pivot) (key (xs ! i)) \<Longrightarrow>
         \<forall>i. r \<le> i \<and> i < length xs \<longrightarrow> flt (key pivot) (key (xs ! i)) \<Longrightarrow>
         (\<forall>i<bisect key xs pivot l r. \<not> flt (key pivot) (key (xs ! i))) \<and>
         (\<forall>i. bisect key xs pivot l r \<le> i \<and> i < length xs \<longrightarrow> flt (key pivot) (key (xs ! i)))"
  using assms
proof (induction key xs pivot l r rule: bisect.induct)
  case (1 key xs pivot l r)
  show ?case
  proof (cases "l < r")
    case False
    then have lr: "l = r" using "1.prems"(1) by simp
    have "bisect key xs pivot l r = l" using False by (simp add: bisect.simps[of key xs pivot l r])
    then show ?thesis using "1.prems"(3,4) lr by simp
  next
    case True
    let ?p = "l + (r - l) div 2"
    have p: "l \<le> ?p" "?p < r" "?p < length xs" using True "1.prems"(2) by auto
    show ?thesis
    proof (cases "flt (key pivot) (key (xs ! ?p))")
      case t: True
      have b: "bisect key xs pivot l r = bisect key xs pivot l ?p"
        using True t by (simp add: bisect.simps[of key xs pivot l r] Let_def)
      have hi: "\<forall>i. ?p \<le> i \<and> i < length xs \<longrightarrow> flt (key pivot) (key (xs ! i))"
      proof (intro allI impI)
        fix i assume i: "?p \<le> i \<and> i < length xs"
        have "fge (key (xs ! i)) (key (xs ! ?p))"
          using sorted_nth_le[OF "1.prems"(5,6), of ?p i] i by simp
        then show "flt (key pivot) (key (xs ! i))" using t flt_fge_trans by blast
      qed
      show ?thesis unfolding b
        using "1.IH"(1)[OF True refl t p(1) _ "1.prems"(3) hi "1.prems"(5,6,7)] p by simp
    next
      case f: False
      have b: "bisect key xs pivot l r = bisect key xs pivot (?p + 1) r"
        using True f by (simp add: bisect.simps[of key xs pivot l r] Let_def)
      have pp: "fge (key pivot) (key (xs ! ?p))"
        using f "1.prems"(6,7) p(3) by (simp add: fge_iff)
      have lo: "\<forall>i<?p + 1. \<not> flt (key pivot) (key (xs ! i))"
      proof (intro allI impI)
        fix i assume i: "i < ?p + 1"
        have "fge (key (xs ! ?p)) (key (xs ! i))"
          using sorted_nth_le[OF "1.prems"(5,6), of i ?p] i p(3) by simp
        then have "fge (key pivot) (key (xs ! i))" using pp fge_trans by blast
        then show "\<not> flt (key pivot) (key (xs ! i))" by (rule fge_not_flt)
      qed
      show ?thesis unfolding b
        using "1.IH"(2)[OF True refl f _ "1.prems"(2) lo "1.prems"(4,5,6,7)] p by simp
    qed
  qed
qed

lemma insert_at_sorted:
  assumes s: "sorted_wrt (\<lambda>a b. fge (key b) (key a)) xs"
    and n: "\<forall>x\<in>set xs. key x \<noteq> NaN" "key pivot \<noteq> NaN"
    and k: "k \<le> length xs"
    and lo: "\<forall>i<k. \<not> flt (key pivot) (key (xs ! i))"
    and hi: "\<forall>i. k \<le> i \<and> i < length xs \<longrightarrow> flt (key pivot) (key (xs ! i))"
  shows "sorted_wrt (\<lambda>a b. fge (key b) (key a)) (take k xs @ [pivot] @ drop k xs)"
proof -
  have st: "sorted_wrt (\<lambda>a b. fge (key b) (key a)) (take k xs)"
    using s by (rule sorted_wrt_take)
  have sd: "sorted_wrt (\<lambda>a b. fge (key b) (key a)) (drop k xs)"
    using s by (rule sorted_wrt_drop)
  have a: "\<forall>x\<in>set (take k xs). fge (key pivot) (key x)"
  proof
    fix x assume "x \<in> set (take k xs)"
    then obtain i where i: "i < length (take k xs)" "x = take k xs ! i"
      unfolding in_set_conv_nth by blast
    have ik: "i < k" using i(1) by simp
    have xi: "x = xs ! i" using i ik by simp
    have "x \<in> set xs" using xi ik k by simp
    then have "key x \<noteq> NaN" using n(1) by blast
    moreover have "\<not> flt (key pivot) (key x)" using lo ik xi by blast
    ultimately show "fge (key pivot) (key x)" using n(2) by (simp add: fge_iff)
  qed
  have b: "\<forall>y\<in>set (drop k xs). fge (key y) (key pivot)"
  proof
    fix y assume "y \<in> set (drop k xs)"
    then obtain j where j: "j < length (drop k xs)" "y = drop k xs ! j"
      unfolding in_set_conv_nth by blast
    have jl: "k + j < length xs" using j(1) by simp
    have yj: "y = xs ! (k + j)" using j k by simp
    have "flt (key pivot) (key y)" using hi jl yj by simp
    then show "fge (key y) (key pivot)" by (rule flt_fge)
  qed
  have c: "\<forall>x\<in>set (take k xs). \<forall>y\<in>set (drop k xs). fge (key y) (key x)"
    using a b fge_trans by blast
  show ?thesis by (simp add: sorted_wrt_append st sd a b c)
qed

lemma binarysort_sorted:
  "sorted_wrt (\<lambda>a b. fge (key b) (key a)) run \<Longrightarrow>
   \<forall>x\<in>set run \<union> set rest. key x \<noteq> NaN \<Longrightarrow>
   sorted_wrt (\<lambda>a b. fge (key b) (key a)) (binarysort key run rest)"
proof (induction rest arbitrary: run)
  case Nil
  then show ?case by simp
next
  case (Cons pivot rest)
  let ?l = "bisect key run pivot 0 (length run)"
  have nr: "\<forall>x\<in>set run. key x \<noteq> NaN" and np: "key pivot \<noteq> NaN" using Cons.prems(2) by auto
  have bd: "?l \<le> length run" using bisect_bounds[of 0 "length run" key run pivot] by simp
  have part: "(\<forall>i<?l. \<not> flt (key pivot) (key (run ! i))) \<and>
         (\<forall>i. ?l \<le> i \<and> i < length run \<longrightarrow> flt (key pivot) (key (run ! i)))"
  proof -
    have h1: "\<forall>i<(0::nat). \<not> flt (key pivot) (key (run ! i))" by simp
    have h2: "\<forall>i. length run \<le> i \<and> i < length run \<longrightarrow> flt (key pivot) (key (run ! i))"
    proof (intro allI impI)
      fix i assume "length run \<le> i \<and> i < length run"
      then have False by linarith
      then show "flt (key pivot) (key (run ! i))" ..
    qed
    show ?thesis by (rule bisect_partition[OF Cons.prems(1) nr np le0 order_refl h1 h2])
  qed
  have s: "sorted_wrt (\<lambda>a b. fge (key b) (key a)) (take ?l run @ [pivot] @ drop ?l run)"
    using insert_at_sorted[OF Cons.prems(1) nr np bd conjunct1[OF part] conjunct2[OF part]] .
  have "set (take ?l run) \<union> set (drop ?l run) = set run"
    using set_append[of "take ?l run" "drop ?l run"] by simp
  then have st: "set (take ?l run @ [pivot] @ drop ?l run) = insert pivot (set run)"
    by auto
  have "\<forall>x\<in>insert pivot (set run) \<union> set rest. key x \<noteq> NaN"
    using Cons.prems(2) by simp
  then have "\<forall>x\<in>set (take ?l run @ [pivot] @ drop ?l run) \<union> set rest. key x \<noteq> NaN"
    unfolding st .
  from Cons.IH[OF s this] show ?case by (simp add: Let_def)
qed

lemma list_sort_sorted:
  assumes "\<forall>x\<in>set xs. key x \<noteq> NaN"
  shows "sorted_wrt (\<lambda>a b. fge (key b) (key a)) (list_sort key xs)"
proof -
  obtain n d where c: "count_run key xs = (n, d)" by (cases "count_run key xs")
  let ?run = "if d then rev (take n xs) else take n xs"
  have r: "sorted_wrt (\<lambda>a b. fge (key b) (key a)) ?run" using run_sorted[OF assms c] .
  have "set ?run \<subseteq> set xs" using set_take_subset[of n xs] by auto
  moreover have "set (drop n xs) \<subseteq> set xs" by (rule set_drop_subset)
  ultimately have "\<forall>x\<in>set ?run \<union> set (drop n xs). key x \<noteq> NaN" using assms by blast
  from binarysort_sorted[OF r this] show ?thesis by (simp add: list_sort_def c)
qed

lemma sorted_sort_reverse:
  "\<forall>x\<in>set xs. key x \<noteq> NaN \<Longrightarrow>
   sorted_wrt (\<lambda>a b. fge (key a) (key b)) (sort_reverse key xs)"
  using list_sort_sorted[of "rev xs" key] by (simp add: sort_reverse_def sorted_wrt_rev)

lemma binarysort_step:
  "bisect key run pivot 0 (length run) = l \<Longrightarrow>
   binarysort key run (pivot # rest) = binarysort key (take l run @ [pivot] @ drop l run) rest"
  by simp

text \<open>
  With a \<^verbatim>\<open>nan\<close> key the result is not ordered, and it is not the input order
  either: here the reversed list starts with a run of four items and bisection places
  the other six.
\<close>

lemma sort_reverse_nan_keys:
  "sort_reverse snd
     [(0::int, Fin (1 / 20)), (1, NaN), (2, NInf), (3, Fin 0), (4, Fin 0), (5, Fin 0), (6, Fin (1 / 10)), (7, Fin 0), (8, Fin 0), (9, Fin 0)] =
     [(1::int, NaN), (6, Fin (1 / 10)), (0, Fin (1 / 20)), (3, Fin 0), (4, Fin 0), (5, Fin 0), (7, Fin 0), (8, Fin 0), (9, Fin 0), (2, NInf)]"
proof -
  have c: "count_run snd
     [(9::int, Fin 0), (8, Fin 0), (7, Fin 0), (6, Fin (1 / 10)), (5, Fin 0), (4, Fin 0), (3, Fin 0), (2, NInf), (1, NaN), (0, Fin (1 / 20))] = (4, False)"
    by simp
  have b0: "bisect snd
     [(9::int, Fin 0), (8, Fin 0), (7, Fin 0), (6, Fin (1 / 10))]
     (5, Fin 0) 0 (length
     [(9::int, Fin 0), (8, Fin 0), (7, Fin 0), (6, Fin (1 / 10))]) = 3"
    by (simp add: bisect.simps Let_def)
  have b1: "bisect snd
     [(9::int, Fin 0), (8, Fin 0), (7, Fin 0), (5, Fin 0), (6, Fin (1 / 10))]
     (4, Fin 0) 0 (length
     [(9::int, Fin 0), (8, Fin 0), (7, Fin 0), (5, Fin 0), (6, Fin (1 / 10))]) = 4"
    by (simp add: bisect.simps Let_def)
  have b2: "bisect snd
     [(9::int, Fin 0), (8, Fin 0), (7, Fin 0), (5, Fin 0), (4, Fin 0), (6, Fin (1 / 10))]
     (3, Fin 0) 0 (length
     [(9::int, Fin 0), (8, Fin 0), (7, Fin 0), (5, Fin 0), (4, Fin 0), (6, Fin (1 / 10))]) = 5"
    by (simp add: bisect.simps Let_def)
  have b3: "bisect snd
     [(9::int, Fin 0), (8, Fin 0), (7, Fin 0), (5, Fin 0), (4, Fin 0), (3, Fin 0), (6, Fin (1 / 10))]
     (2, NInf) 0 (length
     [(9::int, Fin 0), (8, Fin 0), (7, Fin 0), (5, Fin 0), (4, Fin 0), (3, Fin 0), (6, Fin (1 / 10))]) = 0"
    by (simp add: bisect.simps Let_def)
  have b4: "bisect snd
     [(2::int, NInf), (9, Fin 0), (8, Fin 0), (7, Fin 0), (5, Fin 0), (4, Fin 0), (3, Fin 0), (6, Fin (1 / 10))]
     (1, NaN) 0 (length
     [(2::int, NInf), (9, Fin 0), (8, Fin 0), (7, Fin 0), (5, Fin 0), (4, Fin 0), (3, Fin 0), (6, Fin (1 / 10))]) = 8"
    by (simp add: bisect.simps Let_def)
  have b5: "bisect snd
     [(2::int, NInf), (9, Fin 0), (8, Fin 0), (7, Fin 0), (5, Fin 0), (4, Fin 0), (3, Fin 0), (6, Fin (1 / 10)), (1, NaN)]
     (0, Fin (1 / 20)) 0 (length
     [(2::int, NInf), (9, Fin 0), (8, Fin 0), (7, Fin 0), (5, Fin 0), (4, Fin 0), (3, Fin 0), (6, Fin (1 / 10)), (1, NaN)]) = 7"
    by (simp add: bisect.simps Let_def)
  have "list_sort snd
     [(9::int, Fin 0), (8, Fin 0), (7, Fin 0), (6, Fin (1 / 10)), (5, Fin 0), (4, Fin 0), (3, Fin 0), (2, NInf), (1, NaN), (0, Fin (1 / 20))] =
     binarysort snd
     [(9::int, Fin 0), (8, Fin 0), (7, Fin 0), (6, Fin (1 / 10))]
     [(5::int, Fin 0), (4, Fin 0), (3, Fin 0), (2, NInf), (1, NaN), (0, Fin (1 / 20))]"
    by (simp add: list_sort_def c del: binarysort.simps(2))
  also have "\<dots> = binarysort snd
     [(9::int, Fin 0), (8, Fin 0), (7, Fin 0), (5, Fin 0), (6, Fin (1 / 10))]
     [(4::int, Fin 0), (3, Fin 0), (2, NInf), (1, NaN), (0, Fin (1 / 20))]"
    by (simp add: binarysort_step[OF b0] del: binarysort.simps(2))
  also have "\<dots> = binarysort snd
     [(9::int, Fin 0), (8, Fin 0), (7, Fin 0), (5, Fin 0), (4, Fin 0), (6, Fin (1 / 10))]
     [(3::int, Fin 0), (2, NInf), (1, NaN), (0, Fin (1 / 20))]"
    by (simp add: binarysort_step[OF b1] del: binarysort.simps(2))
  also have "\<dots> = binarysort snd
     [(9::int, Fin 0), (8, Fin 0), (7, Fin 0), (5, Fin 0), (4, Fin 0), (3, Fin 0), (6, Fin (1 / 10))]
     [(2::int, NInf), (1, NaN), (0, Fin (1 / 20))]"
    by (simp add: binarysort_step[OF b2] del: binarysort.simps(2))
  also have "\<dots> = binarysort snd
     [(2::int, NInf), (9, Fin 0), (8, Fin 0), (7, Fin 0), (5, Fin 0), (4, Fin 0), (3, Fin 0), (6, Fin (1 / 10))]
     [(1::int, NaN), (0, Fin (1 / 20))]"
    by (simp add: binarysort_step[OF b3] del: binarysort.simps(2))
  also have "\<dots> = binarysort snd
     [(2::int, NInf), (9, Fin 0), (8, Fin 0), (7, Fin 0), (5, Fin 0), (4, Fin 0), (3, Fin 0), (6, Fin (1 / 10)), (1, NaN)]
     [(0::int, Fin (1 / 20))]"
    by (simp add: binarysort_step[OF b4] del: binarysort.simps(2))
  also have "\<dots> = binarysort snd
     [(2::int, NInf), (9, Fin 0), (8, Fin 0), (7, Fin 0), (5, Fin 0), (4, Fin 0), (3, Fin 0), (0, Fin (1 / 20)), (6, Fin (1 / 10)), (1, NaN)]
     []"
    by (simp add: binarysort_step[OF b5] del: binarysort.simps(2))
  finally show ?thesis by (simp add: sort_reverse_def del: binarysort.simps(2))
qed

lemma importance_of_map_of:
  "importance_of tab n =
     (case tab of None \<Rightarrow> 0.1
      | Some t \<Rightarrow> (case map_of (table_rows t) n of None \<Rightarrow> 0.1 | Some w \<Rightarrow> w))"
proof (cases tab)
  case None
  then show ?thesis by (simp add: importance_of_def)
next
  case (Some t)
  have "(case filter (\<lambda>(f, w). f = n) rows of [] \<Rightarrow> 0.1 | (f, w) # rest \<Rightarrow> w) =
        (case map_of rows n of None \<Rightarrow> 0.1 | Some w \<Rightarrow> (w::real))" for rows
    by (induction rows) auto
  then show ?thesis using Some by (simp add: importance_of_def)
qed

lemma contribution_entry:
  assumes "k \<in> set (feature_contributions eng h x)"
  shows "\<exists>i < min (length (feature_names eng)) (length x).
           factor_value k = x ! i \<and>
           factor_name k = humanize_feature_name (feature_names eng ! i) \<and>
           importance k =
             (case feature_importance eng of
                None \<Rightarrow> 0.1
              | Some r \<Rightarrow>
                  (case map_of (table_rows (cells h r)) (feature_names eng ! i) of
                     None \<Rightarrow> 0.1
                   | Some w \<Rightarrow> w)) \<and>
           impact k = fmul (importance k) (normalized_value (feature_names eng ! i) (x ! i))"
proof -
  from assms obtain i where
    i: "i < length (zip (feature_names eng) x)" and
    k: "k = contribution_of (map_option (cells h) (feature_importance eng))
              (zip (feature_names eng) x ! i)"
    unfolding feature_contributions_def by (auto simp: in_set_conv_nth)
  have z: "zip (feature_names eng) x ! i = (feature_names eng ! i, x ! i)"
    using i by simp
  have "factor_value k = x ! i \<and>
           factor_name k = humanize_feature_name (feature_names eng ! i) \<and>
           importance k =
             (case feature_importance eng of
                None \<Rightarrow> 0.1
              | Some r \<Rightarrow>
                  (case map_of (table_rows (cells h r)) (feature_names eng ! i) of
                     None \<Rightarrow> 0.1
                   | Some w \<Rightarrow> w)) \<and>
           impact k = fmul (importance k) (normalized_value (feature_names eng ! i) (x ! i))"
    unfolding k z
    by (simp add: contribution_of_def Let_def importance_of_map_of split: option.splits)
  then show ?thesis using i by auto
qed

text \<open>Positive income values keep every impact finite.\<close>

lemma py_min2_finite: "\<exists>r. py_min2 (Fin a) (Fin b) = Fin r"
  by (cases "b < a") (auto simp: py_min2_def)

lemma normalized_value_finite:
  assumes "n \<in> set [''monthly_income'', ''total_alternative_income''] \<longrightarrow> 0 < v"
  shows "\<exists>r. normalized_value n v = Fin r"
proof (cases "n = ''credit_score''")
  case True
  then have "normalized_value n v = Fin ((v - 300) / 550)" by (simp add: normalized_value_def)
  then show ?thesis by blast
next
  case c: False
  show ?thesis
  proof (cases "n \<in> set [''monthly_income'', ''total_alternative_income'']")
    case True
    then have "0 < v" using assms by blast
    then have "np_log (v / 1000) = Fin (ln (v / 1000))" by (simp add: np_log_def)
    then have "normalized_value n v = py_min2 (Fin (ln (v / 1000) / 3)) (Fin 1)"
      using c True by (simp add: normalized_value_def)
    then show ?thesis using py_min2_finite[of "ln (v / 1000) / 3" 1] by (simp only:)
  next
    case False
    then have "normalized_value n v = py_min2 (Fin v) (Fin 1)"
      using c by (simp add: normalized_value_def)
    then show ?thesis using py_min2_finite[of v 1] by (simp only:)
  qed
qed

lemma positive_income_no_nan:
  assumes "\<forall>(n, v)\<in>set (zip (feature_names eng) x).
             n \<in> set [''monthly_income'', ''total_alternative_income''] \<longrightarrow> 0 < v"
  shows "\<forall>c\<in>set (feature_contributions eng h x). impact c \<noteq> NaN"
proof
  fix c assume "c \<in> set (feature_contributions eng h x)"
  then obtain n v where nv: "(n, v) \<in> set (zip (feature_names eng) x)"
    and c: "c = contribution_of (map_option (cells h) (feature_importance eng)) (n, v)"
    unfolding feature_contributions_def by auto
  from assms nv have "n \<in> set [''monthly_income'', ''total_alternative_income''] \<longrightarrow> 0 < v"
    by blast
  from normalized_value_finite[OF this] obtain r where r: "normalized_value n v = Fin r" by blast
  show "impact c \<noteq> NaN" unfolding c by (simp add: contribution_of_def Let_def r)
qed

text \<open>
  Claim C9, as the code has it. For every explanation generated by a trained model the
  list of key factors has at most 5 entries; every entry belongs to one position of the
  supplied vector and carries the supplied value unmodified, the label of the schema
  name at that position, the weight of that name in the importance table (0.1 when
  there is no table or no row for the name) and the product of weight and normalised
  value as impact; and the list is in descending order of impact provided that no
  computed impact is \<^verbatim>\<open>nan\<close>, as is the case when the supplied income values are
  positive.
\<close>

theorem key_factors_ranked:
  assumes "generate_explanation eng h x = Inr e"
  shows "length (key_factors e) \<le> 5 \<and>
         (\<forall>k\<in>set (key_factors e).
            \<exists>i < min (length (feature_names eng)) (length x).
              factor_value k = x ! i \<and>
              factor_name k = humanize_feature_name (feature_names eng ! i) \<and>
              importance k =
                (case feature_importance eng of
                   None \<Rightarrow> 0.1
                 | Some r \<Rightarrow>
                     (case map_of (table_rows (cells h r)) (feature_names eng ! i) of
                        None \<Rightarrow> 0.1
                      | Some w \<Rightarrow> w)) \<and>
              impact k = fmul (importance k) (normalized_value (feature_names eng ! i) (x ! i))) \<and>
         ((\<forall>c\<in>set (feature_contributions eng h x). impact c \<noteq> NaN) \<longrightarrow>
            descending_by_impact (key_factors e))"
proof -
  obtain p where p: "predict_probability eng x = Inr p"
    using assms generate_explanation_error[of eng x _ h]
    by (cases "predict_probability eng x") auto
  have kf: "key_factors e = take 5 (sort_reverse impact (feature_contributions eng h x))"
    using generate_explanation_ok[OF p, of h] assms by auto
  have 1: "length (key_factors e) \<le> 5" by (simp add: kf)
  have sub: "set (key_factors e) \<subseteq> set (feature_contributions eng h x)"
    unfolding kf using set_take_subset[of 5 "sort_reverse impact (feature_contributions eng h x)"]
    by (simp add: set_sort_reverse)
  have 2: "\<forall>k\<in>set (key_factors e).
            \<exists>i < min (length (feature_names eng)) (length x).
              factor_value k = x ! i \<and>
              factor_name k = humanize_feature_name (feature_names eng ! i) \<and>
              importance k =
                (case feature_importance eng of
                   None \<Rightarrow> 0.1
                 | Some r \<Rightarrow>
                     (case map_of (table_rows (cells h r)) (feature_names eng ! i) of
                        None \<Rightarrow> 0.1
                      | Some w \<Rightarrow> w)) \<and>
              impact k = fmul (importance k) (normalized_value (feature_names eng ! i) (x ! i))"
    using sub contribution_entry[of _ eng h x] by blast
  have 3: "(\<forall>c\<in>set (feature_contributions eng h x). impact c \<noteq> NaN) \<longrightarrow>
            descending_by_impact (key_factors e)"
    unfolding kf descending_by_impact_def
    by (intro impI sorted_wrt_take sorted_sort_reverse)
  show ?thesis by (intro conjI) (rule 1 2 3)+
qed

text \<open>The sample applicant, whose income values are positive.\<close>

theorem key_factors_ranked_witness:
  "generate_explanation example_engine example_heap example_applicant =
     Inr (projr (generate_explanation example_engine example_heap example_applicant)) \<and>
   NaN \<notin> set (map impact (feature_contributions example_engine example_heap example_applicant)) \<and>
   length (key_factors (projr (generate_explanation example_engine example_heap example_applicant)))
     \<le> 5 \<and>
   descending_by_impact
     (key_factors (projr (generate_explanation example_engine example_heap example_applicant)))"
proof -
  have h: "generate_explanation example_engine example_heap example_applicant =
     Inr (projr (generate_explanation example_engine example_heap example_applicant))"
    unfolding generate_explanation_ok[OF example_predict] by simp
  have "\<forall>(n, v)\<in>set (zip (feature_names example_engine) example_applicant).
             n \<in> set [''monthly_income'', ''total_alternative_income''] \<longrightarrow> 0 < v"
    by (simp add: example_engine_fields init_engine_def example_applicant_def)
  then have n: "\<forall>c\<in>set (feature_contributions example_engine example_heap example_applicant).
      impact c \<noteq> NaN"
    by (rule positive_income_no_nan)
  have n': "NaN \<notin> set (map impact
      (feature_contributions example_engine example_heap example_applicant))"
    using n by auto
  have "length (key_factors (projr (generate_explanation example_engine example_heap
            example_applicant))) \<le> 5 \<and>
        descending_by_impact (key_factors (projr (generate_explanation example_engine
            example_heap example_applicant)))"
    using key_factors_ranked[OF h] n by blast
  then show ?thesis using h n' by blast
qed

text \<open>The table of the sample engine gives every schema name the weight 0.1.\<close>

lemma example_table:
  "cells example_heap 0 =
     \<lparr>table_columns = [''feature'', ''importance''],
      table_rows = map (\<lambda>n. (n, 0.1)) (feature_names init_engine)\<rparr>"
  unfolding example_heap_def train_model_heap by code_simp

lemma example_importance:
  "n \<in> set (feature_names init_engine) \<Longrightarrow>
   importance_of (Some (cells example_heap 0)) n = 0.1"
  unfolding example_table importance_of_map_of
  by (simp add: init_engine_def split: option.splits) 

lemma example_importances:
  "importance_of (Some (cells example_heap 0)) ''credit_score'' = 0.1"
  "importance_of (Some (cells example_heap 0)) ''monthly_income'' = 0.1"
  "importance_of (Some (cells example_heap 0)) ''total_alternative_income'' = 0.1"
  "importance_of (Some (cells example_heap 0)) ''payment_reliability_score'' = 0.1"
  "importance_of (Some (cells example_heap 0)) ''cash_flow_consistency'' = 0.1"
  "importance_of (Some (cells example_heap 0)) ''platform_ratings'' = 0.1"
  "importance_of (Some (cells example_heap 0)) ''community_trust_score'' = 0.1"
  "importance_of (Some (cells example_heap 0)) ''financial_engagement_score'' = 0.1"
  "importance_of (Some (cells example_heap 0)) ''income_diversification'' = 0.1"
  "importance_of (Some (cells example_heap 0)) ''business_health'' = 0.1"
  by (simp_all add: example_importance init_engine_def)

lemma ln_1000: "3 < ln (1000::real)"
proof -
  have "exp (3::real) = exp 1 ^ 3" using exp_of_nat_mult[of 3 "1::real"] by simp
  also have "\<dots> \<le> 3 ^ 3"
    using exp_le by (intro power_mono) simp_all
  also have "\<dots> < (1000::real)" by simp
  finally have "exp (3::real) < exp (ln 1000)" by simp
  then show ?thesis by (simp only: exp_less_cancel_iff)
qed

lemma nan_predict: "predict_probability example_engine nan_applicant = Inr 0.7"
  by (simp add: predict_probability_def example_engine_fields make_feature_df_ok init_engine_def
        nan_applicant_def standard_scaler_def)

lemma nan_contributions:
  "feature_contributions example_engine example_heap nan_applicant =
     [\<lparr>factor_name = ''Traditional Credit Score'', factor_value = 300, impact = Fin 0, importance = 0.1\<rparr>,
      \<lparr>factor_name = ''Monthly Income'', factor_value = - 1000, impact = NaN, importance = 0.1\<rparr>,
      \<lparr>factor_name = ''Alternative Income Sources'', factor_value = 1000000, impact = Fin 0.1, importance = 0.1\<rparr>,
      \<lparr>factor_name = ''Payment History'', factor_value = 0.5, impact = Fin 0.05, importance = 0.1\<rparr>,
      \<lparr>factor_name = ''Business Cash Flow Stability'', factor_value = 0.5, impact = Fin 0.05, importance = 0.1\<rparr>,
      \<lparr>factor_name = ''Gig Platform Performance'', factor_value = 0.5, impact = Fin 0.05, importance = 0.1\<rparr>,
      \<lparr>factor_name = ''Community Trust'', factor_value = 0.5, impact = Fin 0.05, importance = 0.1\<rparr>,
      \<lparr>factor_name = ''Financial Education'', factor_value = 0.5, impact = Fin 0.05, importance = 0.1\<rparr>,
      \<lparr>factor_name = ''Income Diversification'', factor_value = 0.5, impact = Fin 0.05, importance = 0.1\<rparr>,
      \<lparr>factor_name = ''Overall Business Health'', factor_value = 0.5, impact = Fin 0.05, importance = 0.1\<rparr>]"
  unfolding feature_contributions_def example_engine_fields
  by (simp add: init_engine_def nan_applicant_def contribution_of_def Let_def
        example_importances normalized_value_def np_log_def py_min2_def ln_1000
        humanize_feature_name_def name_mapping_def)

text \<open>
  Reversed, the contributions of this applicant are a single non-descending run under
  \<^verbatim>\<open><\<close>, so the sort returns them in the order in which they were built.
\<close>

lemma nan_sort_unchanged:
  "sort_reverse impact
     [\<lparr>factor_name = ''Traditional Credit Score'', factor_value = 300, impact = Fin 0, importance = 0.1\<rparr>,
      \<lparr>factor_name = ''Monthly Income'', factor_value = - 1000, impact = NaN, importance = 0.1\<rparr>,
      \<lparr>factor_name = ''Alternative Income Sources'', factor_value = 1000000, impact = Fin 0.1, importance = 0.1\<rparr>,
      \<lparr>factor_name = ''Payment History'', factor_value = 0.5, impact = Fin 0.05, importance = 0.1\<rparr>,
      \<lparr>factor_name = ''Business Cash Flow Stability'', factor_value = 0.5, impact = Fin 0.05, importance = 0.1\<rparr>,
      \<lparr>factor_name = ''Gig Platform Performance'', factor_value = 0.5, impact = Fin 0.05, importance = 0.1\<rparr>,
      \<lparr>factor_name = ''Community Trust'', factor_value = 0.5, impact = Fin 0.05, importance = 0.1\<rparr>,
      \<lparr>factor_name = ''Financial Education'', factor_value = 0.5, impact = Fin 0.05, importance = 0.1\<rparr>,
      \<lparr>factor_name = ''Income Diversification'', factor_value = 0.5, impact = Fin 0.05, importance = 0.1\<rparr>,
      \<lparr>factor_name = ''Overall Business Health'', factor_value = 0.5, impact = Fin 0.05, importance = 0.1\<rparr>] =
     [\<lparr>factor_name = ''Traditional Credit Score'', factor_value = 300, impact = Fin 0, importance = 0.1\<rparr>,
      \<lparr>factor_name = ''Monthly Income'', factor_value = - 1000, impact = NaN, importance = 0.1\<rparr>,
      \<lparr>factor_name = ''Alternative Income Sources'', factor_value = 1000000, impact = Fin 0.1, importance = 0.1\<rparr>,
      \<lparr>factor_name = ''Payment History'', factor_value = 0.5, impact = Fin 0.05, importance = 0.1\<rparr>,
      \<lparr>factor_name = ''Business Cash Flow Stability'', factor_value = 0.5, impact = Fin 0.05, importance = 0.1\<rparr>,
      \<lparr>factor_name = ''Gig Platform Performance'', factor_value = 0.5, impact = Fin 0.05, importance = 0.1\<rparr>,
      \<lparr>factor_name = ''Community Trust'', factor_value = 0.5, impact = Fin 0.05, importance = 0.1\<rparr>,
      \<lparr>factor_name = ''Financial Education'', factor_value = 0.5, impact = Fin 0.05, importance = 0.1\<rparr>,
      \<lparr>factor_name = ''Income Diversification'', factor_value = 0.5, impact = Fin 0.05, importance = 0.1\<rparr>,
      \<lparr>factor_name = ''Overall Business Health'', factor_value = 0.5, impact = Fin 0.05, importance = 0.1\<rparr>]"
  by (simp add: sort_reverse_def list_sort_def)

lemma nan_key_factors:
  "generate_explanation example_engine example_heap nan_applicant =
     Inr \<lparr>decision = ''APPROVED'', confidence = ''High'', risk_score = 0.3,
          approval_probability = 0.7,
          key_factors =
     [\<lparr>factor_name = ''Traditional Credit Score'', factor_value = 300, impact = Fin 0, importance = 0.1\<rparr>,
      \<lparr>factor_name = ''Monthly Income'', factor_value = - 1000, impact = NaN, importance = 0.1\<rparr>,
      \<lparr>factor_name = ''Alternative Income Sources'', factor_value = 1000000, impact = Fin 0.1, importance = 0.1\<rparr>,
      \<lparr>factor_name = ''Payment History'', factor_value = 0.5, impact = Fin 0.05, importance = 0.1\<rparr>,
      \<lparr>factor_name = ''Business Cash Flow Stability'', factor_value = 0.5, impact = Fin 0.05, importance = 0.1\<rparr>]\<rparr>"
  unfolding generate_explanation_ok[OF nan_predict] nan_contributions nan_sort_unchanged
  by (simp add: decision_band_def)

text \<open>
  A negative monthly income gives that entry the impact \<^verbatim>\<open>nan\<close>; no comparison with
  it succeeds, the sort leaves the list as it was built, and the credit-score entry of
  impact 0 is ranked before entries of impact 0.1 and 0.05.
\<close>

theorem key_factors_nan_counterexample:
  "\<not> isl (generate_explanation example_engine example_heap nan_applicant) \<and>
   map impact (key_factors (projr (generate_explanation example_engine example_heap nan_applicant))) =
     [Fin 0, NaN, Fin 0.1, Fin 0.05, Fin 0.05] \<and>
   \<not> descending_by_impact
     (key_factors (projr (generate_explanation example_engine example_heap nan_applicant)))"
  unfolding nan_key_factors by (simp add: descending_by_impact_def)

end
